theory Spec2Isabelle
  imports Complex_Main "HOL-Library.List_Lexorder" "HOL-Library.Char_ord"
begin

section \<open>Python and NumPy building blocks\<close>

text \<open>
  Scores, similarities and matrix entries are Python floats in the source and values
  of type \<^typ>\<open>real\<close> in the model. Sums and products of scores are computed exactly.
  Where the source hands the arithmetic to scikit-learn's \<open>cosine_similarity\<close>, whose
  result is read entry by entry, the float64 rounding is explicit: a function \<open>rnd\<close>,
  a parameter of the model, maps the exact result of each operation to the float the
  machine stores. An exception is a value of type \<open>error\<close>; a function that can raise
  returns \<open>error + 'a\<close> (\<open>Inl\<close> the exception) or, where the caller turns every exception
  into the same result, \<open>'a option\<close>.
\<close>

datatype error = TypeError | KeyError | IndexError | ValueError | LibraryError

type_synonym matrix = "real list list"

text \<open>\<open>xs[:n]\<close> for a Python int \<open>n\<close>: a negative \<open>n\<close> counts from the end.\<close>

definition py_take :: "int \<Rightarrow> 'a list \<Rightarrow> 'a list" where
  "py_take n xs = (if 0 \<le> n then take (nat n) xs else take (length xs - nat (- n)) xs)"

text \<open>\<open>xs[1:stop]\<close> for a Python int \<open>stop\<close>.\<close>

definition py_slice1 :: "int \<Rightarrow> 'a list \<Rightarrow> 'a list" where
  "py_slice1 stop xs = drop 1 (py_take stop xs)"

text \<open>
  \<open>np.argsort(xs)\<close>: the positions of \<open>xs\<close> in ascending order of their values. The source
  calls it with the default \<open>kind\<close>, which is not a stable sort: the order in which the
  positions of equal values come out is the choice of the NumPy build. The routine is
  therefore a parameter \<open>srt\<close> of the functions that call it. \<open>argsort_of xs p\<close> says that
  \<open>p\<close> is a result \<open>np.argsort(xs)\<close> may return, a permutation of the positions that puts
  the values in ascending order; \<open>is_argsort srt\<close> says that \<open>srt\<close> returns such a result
  for every array.
\<close>

definition argsort_of :: "real list \<Rightarrow> nat list \<Rightarrow> bool" where
  "argsort_of xs p \<longleftrightarrow> sort p = [0..<length xs] \<and> sorted (map (\<lambda>i. xs ! i) p)"

definition is_argsort :: "(real list \<Rightarrow> nat list) \<Rightarrow> bool" where
  "is_argsort srt \<longleftrightarrow> (\<forall>xs. argsort_of xs (srt xs))"

text \<open>
  Two routines that qualify: \<open>stable_argsort\<close> keeps the positions of equal values in
  increasing order (a stable sort), \<open>reverse_stable_argsort\<close> in decreasing order.
\<close>

definition stable_argsort :: "real list \<Rightarrow> nat list" where
  "stable_argsort xs = sort_key (\<lambda>i. xs ! i) [0..<length xs]"

definition reverse_stable_argsort :: "real list \<Rightarrow> nat list" where
  "reverse_stable_argsort xs = sort_key (\<lambda>i. xs ! i) (rev [0..<length xs])"

text \<open>\<open>sorted(xs, key=f, reverse=True)\<close>: descending, equal keys in their original order.\<close>

definition sorted_reverse :: "('a \<Rightarrow> real) \<Rightarrow> 'a list \<Rightarrow> 'a list" where
  "sorted_reverse f xs = rev (sort_key f (rev xs))"

text \<open>\<open>{k: v for k, v in pairs}\<close>: a later pair replaces an earlier one with the same key.\<close>

definition dict_of :: "('k \<times> 'v) list \<Rightarrow> ('k \<rightharpoonup> 'v)" where
  "dict_of pairs = map_of (rev pairs)"

definition enumerate_list :: "'a list \<Rightarrow> (nat \<times> 'a) list" where
  "enumerate_list xs = zip [0..<length xs] xs"

text \<open>
  The two dictionaries both filters build from a column of ids:
  \<open>{x: idx for idx, x in enumerate(ids)}\<close> and its reversal
  \<open>{idx: x for x, idx in index_map.items()}\<close>, which holds a position exactly when the
  forward map sends the id at that position back to it.
\<close>

definition index_map :: "string list \<Rightarrow> (string \<rightharpoonup> nat)" where
  "index_map ids = dict_of (map (\<lambda>(idx, x). (x, idx)) (enumerate_list ids))"

definition reverse_map :: "string list \<Rightarrow> (nat \<rightharpoonup> string)" where
  "reverse_map ids idx =
     (if idx < length ids \<and> index_map ids (ids ! idx) = Some idx then Some (ids ! idx) else None)"

section \<open>Collaborative filter: \<open>prepare_data\<close>\<close>

text \<open>
  One aggregated interaction record, as \<open>get_user_product_matrix\<close> produces it (its
  \<open>lastInteraction\<close> field is never read by the filters). \<open>interactionTypes = None\<close> is a
  record whose \<open>interactionTypes\<close> is \<open>None\<close>: iterating it, or testing membership in it,
  raises \<open>TypeError\<close>.
\<close>

record interaction =
  userId :: string
  productId :: string
  interactions :: int
  interactionTypes :: "string list option"

record scored = interaction +
  score :: real

definition interaction_weights :: "string \<rightharpoonup> real" where
  "interaction_weights = map_of [(''view'', 1), (''cart_add'', 2), (''purchase'', 3)]"

text \<open>
  The \<open>score\<close> column while it is computed: one cell per record, \<open>None\<close> for NaN.
  \<open>add_weight t\<close> is one round of the loop over \<open>df['interactionTypes'].iloc[0]\<close>: when \<open>t\<close>
  has a weight, \<open>df['interactionTypes'].apply(lambda x: t in x)\<close> selects the records
  whose types contain \<open>t\<close> and the weight is added to their cells.
\<close>

definition contains_type :: "string \<Rightarrow> interaction \<Rightarrow> bool" where
  "contains_type t r = (case interactionTypes r of None \<Rightarrow> False | Some ts \<Rightarrow> t \<in> set ts)"

definition add_weight ::
  "string \<Rightarrow> interaction list \<Rightarrow> real option list \<Rightarrow> error + real option list" where
  "add_weight t df col =
     (case interaction_weights t of
        None \<Rightarrow> Inr col
      | Some w \<Rightarrow>
          if list_ex (\<lambda>r. interactionTypes r = None) df then Inl TypeError
          else Inr (map2 (\<lambda>r c. if contains_type t r then map_option (\<lambda>x. x + w) c else c)
                      df col))"

fun score_loop ::
  "string list \<Rightarrow> interaction list \<Rightarrow> real option list \<Rightarrow> error + real option list" where
  "score_loop [] df col = Inr col"
| "score_loop (t # ts) df col =
     (case add_weight t df col of Inl e \<Rightarrow> Inl e | Inr col' \<Rightarrow> score_loop ts df col')"

text \<open>\<open>df['score'].fillna(df['interactions'])\<close>, cell by cell.\<close>

definition fillna :: "real option \<Rightarrow> real \<Rightarrow> real" where
  "fillna c d = (case c of None \<Rightarrow> d | Some x \<Rightarrow> x)"

definition with_score :: "interaction \<Rightarrow> real \<Rightarrow> scored" where
  "with_score r x = interaction.extend r (scored.fields x)"

text \<open>\<open>df.groupby(key)['score'].sum()\<close> read at one key.\<close>

definition group_sum :: "(scored \<Rightarrow> string) \<Rightarrow> scored list \<Rightarrow> string \<Rightarrow> real" where
  "group_sum key df k = sum_list (map score (filter (\<lambda>r. key r = k) df))"

definition calculate_scores :: "interaction list \<Rightarrow> error + scored list" where
  "calculate_scores df =
     (case df of
        [] \<Rightarrow> Inr []
      | first # _ \<Rightarrow>
          (case interactionTypes first of
             None \<Rightarrow> Inl TypeError
           | Some first_types \<Rightarrow>
               (case score_loop first_types df (map (\<lambda>_. Some 0) df) of
                  Inl e \<Rightarrow> Inl e
                | Inr col \<Rightarrow>
                    Inr (map2 (\<lambda>r c. with_score r (fillna c (real_of_int (interactions r))))
                           df col))))"

definition prepare_data :: "int \<Rightarrow> interaction list \<Rightarrow> error + scored list" where
  "prepare_data min_interactions recs =
     (if recs = [] then Inr []
      else
        (case calculate_scores recs of
           Inl e \<Rightarrow> Inl e
         | Inr df \<Rightarrow>
             Inr (filter
                    (\<lambda>r. real_of_int min_interactions \<le> group_sum userId df (userId r) \<and>
                         real_of_int min_interactions \<le> group_sum productId df (productId r))
                    df)))"

section \<open>Matrices and cosine similarity\<close>

text \<open>
  A NumPy matrix is the list of its rows; \<open>np.array([])\<close>, the empty sentinel of
  \<open>create_user_item_matrix\<close> and \<open>extract_features\<close>, is \<open>[]\<close>. \<open>matrix_size\<close> is \<open>.size\<close>
  and \<open>shape1\<close> is \<open>.shape[1]\<close> of a matrix with a row.
\<close>

definition matrix_size :: "matrix \<Rightarrow> nat" where
  "matrix_size m = sum_list (map length m)"

definition shape1 :: "matrix \<Rightarrow> nat" where
  "shape1 m = (case m of [] \<Rightarrow> 0 | r # _ \<Rightarrow> length r)"

text \<open>\<open>m[i]\<close> on a matrix attribute: raises when the attribute is \<open>None\<close> or \<open>i\<close> is out of range.\<close>

definition row :: "matrix option \<Rightarrow> nat \<Rightarrow> real list option" where
  "row m i =
     (case m of None \<Rightarrow> None | Some rs \<Rightarrow> if i < length rs then Some (rs ! i) else None)"

text \<open>
  Float64 arithmetic, as far as the model spells it out. \<open>rnd\<close> rounds the exact result
  of one operation; IEEE 754 rounds each of \<open>+\<close>, \<open>*\<close>, \<open>/\<close> and \<open>sqrt\<close> this way. The model
  assumes nothing of \<open>rnd\<close>: a theorem that needs a property of it (such as \<open>rnd 0 = 0\<close>)
  says so. \<open>exact\<close> is arithmetic without rounding. The library does not say in which
  order a dot product adds its terms; the model adds them from left to right.
\<close>

definition exact :: "real \<Rightarrow> real" where
  "exact x = x"

definition dot :: "(real \<Rightarrow> real) \<Rightarrow> real list \<Rightarrow> real list \<Rightarrow> real" where
  "dot rnd u v = foldl (\<lambda>acc (x, y). rnd (acc + rnd (x * y))) 0 (zip u v)"

definition l2_norm :: "(real \<Rightarrow> real) \<Rightarrow> real list \<Rightarrow> real" where
  "l2_norm rnd v = rnd (sqrt (dot rnd v v))"

text \<open>
  scikit-learn's \<open>normalize\<close>: each row is divided by its Euclidean norm, a zero norm being
  replaced by 1 first. \<open>cosine_similarity(X, Y)\<close> is the matrix of dot products of the
  normalised rows of \<open>X\<close> with the normalised rows of \<open>Y\<close>; \<open>cosine_similarity(X)\<close> takes
  \<open>Y = X\<close>.
\<close>

definition normalize_row :: "(real \<Rightarrow> real) \<Rightarrow> real list \<Rightarrow> real list" where
  "normalize_row rnd v =
     map (\<lambda>x. rnd (x / (if l2_norm rnd v = 0 then 1 else l2_norm rnd v))) v"

definition cosine_similarity_xy :: "(real \<Rightarrow> real) \<Rightarrow> matrix \<Rightarrow> matrix \<Rightarrow> matrix" where
  "cosine_similarity_xy rnd X Y =
     map (\<lambda>x. map (\<lambda>y. dot rnd x y) (map (normalize_row rnd) Y)) (map (normalize_row rnd) X)"

definition cosine_similarity :: "(real \<Rightarrow> real) \<Rightarrow> matrix \<Rightarrow> matrix" where
  "cosine_similarity rnd X = cosine_similarity_xy rnd X X"

section \<open>Collaborative filter: state, matrix construction and training\<close>

text \<open>
  The attributes of \<open>CollaborativeFiltering\<close>. Both filter classes have an attribute
  \<open>is_trained\<close>; the two record fields are \<open>cf_is_trained\<close> and \<open>cb_is_trained\<close>. The fitted
  \<open>svd_model\<close> is read by nothing but \<open>train\<close> itself and is not part of the record.
\<close>

record cf_state =
  n_components :: int
  min_interactions :: int
  user_item_matrix :: "matrix option"
  user_similarity_matrix :: "matrix option"
  user_index_map :: "string \<rightharpoonup> nat"
  item_index_map :: "string \<rightharpoonup> nat"
  reverse_user_map :: "nat \<rightharpoonup> string"
  reverse_item_map :: "nat \<rightharpoonup> string"
  cf_is_trained :: bool

definition CollaborativeFiltering :: "int \<Rightarrow> int \<Rightarrow> cf_state" where
  "CollaborativeFiltering n m =
     \<lparr>n_components = n, min_interactions = m, user_item_matrix = None,
      user_similarity_matrix = None, user_index_map = Map.empty, item_index_map = Map.empty,
      reverse_user_map = Map.empty, reverse_item_map = Map.empty, cf_is_trained = False\<rparr>"

text \<open>
  \<open>df.pivot_table(index='userId', columns='productId', values='score', fill_value=0)\<close>:
  one row per user and one column per product of \<open>df\<close>, both in sorted order; a cell is
  the mean of the scores of its records, and 0 when it has none.
\<close>

definition pivot_index :: "(scored \<Rightarrow> string) \<Rightarrow> scored list \<Rightarrow> string list" where
  "pivot_index key df = sort (remdups (map key df))"

definition pivot_cell :: "scored list \<Rightarrow> string \<Rightarrow> string \<Rightarrow> real" where
  "pivot_cell df u p =
     (let ss = map score (filter (\<lambda>r. userId r = u \<and> productId r = p) df)
      in if ss = [] then 0 else sum_list ss / real (length ss))"

definition pivot_table :: "scored list \<Rightarrow> matrix" where
  "pivot_table df =
     map (\<lambda>u. map (\<lambda>p. pivot_cell df u p) (pivot_index productId df)) (pivot_index userId df)"

text \<open>
  \<open>create_user_item_matrix\<close> returns the matrix and, unless \<open>df\<close> is empty, replaces the
  four index maps of the filter.
\<close>

definition create_user_item_matrix :: "scored list \<Rightarrow> cf_state \<Rightarrow> matrix \<times> cf_state" where
  "create_user_item_matrix df s =
     (if df = [] then ([], s)
      else
        (pivot_table df,
         s\<lparr>user_index_map := index_map (pivot_index userId df),
           item_index_map := index_map (pivot_index productId df),
           reverse_user_map := reverse_map (pivot_index userId df),
           reverse_item_map := reverse_map (pivot_index productId df)\<rparr>))"

text \<open>
  \<open>train\<close>. The result is the exception that leaves the call, if any, and the filter
  afterwards. \<open>svd k m\<close> stands for \<open>svd_model.fit(m)\<close> followed by
  \<open>svd_model.transform(m)\<close> with \<open>n_components = k\<close>: scikit-learn's truncated SVD is a
  parameter of the model, and it may raise. \<open>rnd\<close> is the rounding of the similarity
  computation.
\<close>

definition cf_train ::
  "(real \<Rightarrow> real) \<Rightarrow> (int \<Rightarrow> matrix \<Rightarrow> error + matrix) \<Rightarrow> interaction list \<Rightarrow> cf_state \<Rightarrow>
     error option \<times> cf_state" where
  "cf_train rnd svd recs s =
     (case prepare_data (min_interactions s) recs of
        Inl e \<Rightarrow> (Some e, s\<lparr>cf_is_trained := False\<rparr>)
      | Inr df \<Rightarrow>
          if df = [] then (None, s\<lparr>cf_is_trained := False\<rparr>)
          else
            (let (m, s1) = create_user_item_matrix df s;
                 s2 = s1\<lparr>user_item_matrix := Some m\<rparr>
             in if matrix_size m = 0 then (None, s2\<lparr>cf_is_trained := False\<rparr>)
                else
                  (case (if n_components s2 < int (shape1 m) then svd (n_components s2) m
                         else Inr m) of
                     Inl e \<Rightarrow> (Some e, s2\<lparr>cf_is_trained := False\<rparr>)
                   | Inr reduced_matrix \<Rightarrow>
                       (None, s2\<lparr>user_similarity_matrix :=
                                   Some (cosine_similarity rnd reduced_matrix),
                                 cf_is_trained := True\<rparr>))))"

section \<open>Collaborative filter: recommendations\<close>

text \<open>
  The loop over the similar users: a neighbour with positive similarity adds
  \<open>similarity * user_item_matrix[neighbour]\<close> to \<open>item_scores\<close>. Reading a row that the
  matrix does not have raises; so does adding rows of different lengths (which no
  rectangular array has).
\<close>

fun accumulate_scores :: "nat list \<Rightarrow> real list \<Rightarrow> matrix \<Rightarrow> real list \<Rightarrow> real list option" where
  "accumulate_scores [] sims uim acc = Some acc"
| "accumulate_scores (k # ks) sims uim acc =
     (if 0 < sims ! k then
        (if k < length uim \<and> length (uim ! k) = length acc
         then accumulate_scores ks sims uim (map2 (\<lambda>a x. a + sims ! k * x) acc (uim ! k))
         else None)
      else accumulate_scores ks sims uim acc)"

text \<open>
  \<open>item_scores\<close> of \<open>get_user_recommendations\<close> after \<open>item_scores[interacted_items] = 0\<close>;
  \<open>None\<close> when an exception was raised on the way.
\<close>

definition cf_item_scores ::
  "(real list \<Rightarrow> nat list) \<Rightarrow> cf_state \<Rightarrow> nat \<Rightarrow> real list option" where
  "cf_item_scores srt s user_idx =
     (case row (user_similarity_matrix s) user_idx of
        None \<Rightarrow> None
      | Some user_similarities \<Rightarrow>
          (case user_item_matrix s of
             None \<Rightarrow> None
           | Some uim \<Rightarrow>
               (case row (Some uim) user_idx of
                  None \<Rightarrow> None
                | Some user_interactions \<Rightarrow>
                    (case accumulate_scores (take 10 (drop 1 (rev (srt user_similarities))))
                            user_similarities uim (replicate (shape1 uim) 0) of
                       None \<Rightarrow> None
                     | Some item_scores \<Rightarrow>
                         if length user_interactions = length item_scores
                         then Some (map2 (\<lambda>x a. if 0 < x then 0 else a)
                                      user_interactions item_scores)
                         else None))))"

text \<open>
  The loop that turns column positions into \<open>(product_id, score)\<close> pairs, keeping the
  positive scores; a position missing from the reverse map raises \<open>KeyError\<close>.
\<close>

fun collect_positive ::
  "nat list \<Rightarrow> real list \<Rightarrow> (nat \<rightharpoonup> string) \<Rightarrow> (string \<times> real) list option" where
  "collect_positive [] sc rmap = Some []"
| "collect_positive (j # js) sc rmap =
     (if 0 < sc ! j then
        (case rmap j of
           None \<Rightarrow> None
         | Some p \<Rightarrow> map_option ((#) (p, sc ! j)) (collect_positive js sc rmap))
      else collect_positive js sc rmap)"

fun collect_all ::
  "nat list \<Rightarrow> real list \<Rightarrow> (nat \<rightharpoonup> string) \<Rightarrow> (string \<times> real) list option" where
  "collect_all [] sc rmap = Some []"
| "collect_all (j # js) sc rmap =
     (case rmap j of
        None \<Rightarrow> None
      | Some p \<Rightarrow> map_option ((#) (p, sc ! j)) (collect_all js sc rmap))"

definition get_user_recommendations ::
  "(real list \<Rightarrow> nat list) \<Rightarrow> cf_state \<Rightarrow> string \<Rightarrow> int \<Rightarrow> (string \<times> real) list" where
  "get_user_recommendations srt s user_id n_recommendations =
     (if \<not> cf_is_trained s then []
      else
        (case user_index_map s user_id of
           None \<Rightarrow> []
         | Some user_idx \<Rightarrow>
             (case cf_item_scores srt s user_idx of
                None \<Rightarrow> []
              | Some item_scores \<Rightarrow>
                  (case collect_positive (py_take n_recommendations (rev (srt item_scores)))
                          item_scores (reverse_item_map s) of
                     None \<Rightarrow> []
                   | Some recommendations \<Rightarrow> recommendations))))"

definition get_similar_users ::
  "(real list \<Rightarrow> nat list) \<Rightarrow> cf_state \<Rightarrow> string \<Rightarrow> int \<Rightarrow> (string \<times> real) list" where
  "get_similar_users srt s user_id n_users =
     (if \<not> cf_is_trained s then []
      else
        (case user_index_map s user_id of
           None \<Rightarrow> []
         | Some user_idx \<Rightarrow>
             (case row (user_similarity_matrix s) user_idx of
                None \<Rightarrow> []
              | Some user_similarities \<Rightarrow>
                  (case collect_all (py_slice1 (n_users + 1) (rev (srt user_similarities)))
                          user_similarities (reverse_user_map s) of
                     None \<Rightarrow> []
                   | Some similar_users \<Rightarrow> similar_users))))"

section \<open>Content filter\<close>

text \<open>
  A product document of the catalogue and a row of the frame \<open>prepare_product_data\<close>
  returns. \<open>prepare_product_data\<close> and \<open>extract_features\<close> are pandas and scikit-learn
  pipelines (TF-IDF, standard scaling, one-hot encoding); \<open>train\<close> takes them as
  parameters that return their result or raise.
\<close>

record product =
  product_id :: string
  name :: "string option"
  description :: "string option"
  category :: "string option"
  price :: "real option"
  tags :: "string list option"

record product_row =
  row_id :: string
  combined_text :: string
  row_category :: string
  row_price :: real
  price_category :: string

record cb_state =
  max_features :: int
  product_features :: "matrix option"
  product_similarity_matrix :: "matrix option"
  product_index_map :: "string \<rightharpoonup> nat"
  reverse_product_map :: "nat \<rightharpoonup> string"
  cb_is_trained :: bool

definition ContentBasedFiltering :: "int \<Rightarrow> cb_state" where
  "ContentBasedFiltering n =
     \<lparr>max_features = n, product_features = None, product_similarity_matrix = None,
      product_index_map = Map.empty, reverse_product_map = Map.empty, cb_is_trained = False\<rparr>"

definition cb_train ::
  "(real \<Rightarrow> real) \<Rightarrow> (product list \<Rightarrow> error + product_row list) \<Rightarrow>
     (product_row list \<Rightarrow> error + matrix) \<Rightarrow> product list \<Rightarrow> cb_state \<Rightarrow>
     error option \<times> cb_state" where
  "cb_train rnd prepare_product_data extract_features products s =
     (case prepare_product_data products of
        Inl e \<Rightarrow> (Some e, s\<lparr>cb_is_trained := False\<rparr>)
      | Inr df \<Rightarrow>
          if df = [] then (None, s\<lparr>cb_is_trained := False\<rparr>)
          else
            (let s1 = s\<lparr>product_index_map := index_map (map row_id df),
                        reverse_product_map := reverse_map (map row_id df)\<rparr>
             in case extract_features df of
                  Inl e \<Rightarrow> (Some e, s1\<lparr>cb_is_trained := False\<rparr>)
                | Inr features \<Rightarrow>
                    (let s2 = s1\<lparr>product_features := Some features\<rparr>
                     in if matrix_size features = 0 then (None, s2\<lparr>cb_is_trained := False\<rparr>)
                        else (None, s2\<lparr>product_similarity_matrix :=
                                          Some (cosine_similarity rnd features),
                                        cb_is_trained := True\<rparr>))))"

definition get_similar_products ::
  "(real list \<Rightarrow> nat list) \<Rightarrow> cb_state \<Rightarrow> string \<Rightarrow> int \<Rightarrow> (string \<times> real) list" where
  "get_similar_products srt s pid n_recommendations =
     (if \<not> cb_is_trained s then []
      else
        (case product_index_map s pid of
           None \<Rightarrow> []
         | Some product_idx \<Rightarrow>
             (case row (product_similarity_matrix s) product_idx of
                None \<Rightarrow> []
              | Some similarity_scores \<Rightarrow>
                  (case collect_all
                          (py_slice1 (n_recommendations + 1) (rev (srt similarity_scores)))
                          similarity_scores (reverse_product_map s) of
                     None \<Rightarrow> []
                   | Some recommendations \<Rightarrow> recommendations))))"

text \<open>
  One document of a user's interaction history, as \<open>get_user_interactions\<close> returns it;
  the filter reads its \<open>productId\<close> and \<open>interactionType\<close>.
\<close>

record user_interaction =
  ui_productId :: string
  ui_interactionType :: string

text \<open>
  The loop that builds the user profile: the running profile vector, the total weight
  and the products met so far. An interaction type without a weight counts 1.0.
\<close>

fun profile_loop ::
  "user_interaction list \<Rightarrow> (string \<rightharpoonup> nat) \<Rightarrow> matrix \<Rightarrow> real list \<times> real \<times> string list \<Rightarrow>
     (real list \<times> real \<times> string list) option" where
  "profile_loop [] imap feats acc = Some acc"
| "profile_loop (i # rest) imap feats (user_profile, total_weight, interacted_products) =
     (case imap (ui_productId i) of
        None \<Rightarrow> profile_loop rest imap feats (user_profile, total_weight, interacted_products)
      | Some product_idx \<Rightarrow>
          if product_idx < length feats \<and> length (feats ! product_idx) = length user_profile
          then
            (let weight = (case interaction_weights (ui_interactionType i) of
                             None \<Rightarrow> 1 | Some w \<Rightarrow> w)
             in profile_loop rest imap feats
                  (map2 (\<lambda>a x. a + weight * x) user_profile (feats ! product_idx),
                   total_weight + weight,
                   List.insert (ui_productId i) interacted_products))
          else None)"

text \<open>
  \<open>product_scores\<close> of \<open>get_user_content_recommendations\<close> after the scores of the
  products the user met are set to 0: \<open>None\<close> when an exception was raised on the way,
  \<open>Some None\<close> when the total weight is 0 (the function returns \<open>[]\<close>).
\<close>

definition cb_product_scores ::
  "(real \<Rightarrow> real) \<Rightarrow> cb_state \<Rightarrow> user_interaction list \<Rightarrow> real list option option" where
  "cb_product_scores rnd s user_interactions =
     (case product_features s of
        None \<Rightarrow> None
      | Some feats \<Rightarrow>
          if feats = [] then None
          else
            (case profile_loop user_interactions (product_index_map s) feats
                    (replicate (shape1 feats) 0, 0, []) of
               None \<Rightarrow> None
             | Some (user_profile, total_weight, interacted_products) \<Rightarrow>
                 if total_weight = 0 then Some None
                 else if list_ex (\<lambda>f. length f \<noteq> length user_profile) feats then None
                 else
                   (let product_scores =
                          hd (cosine_similarity_xy rnd
                                [map (\<lambda>x. x / total_weight) user_profile] feats)
                    in Some (Some (map (\<lambda>j. if list_ex (\<lambda>p. product_index_map s p = Some j)
                                                  interacted_products
                                             then 0 else product_scores ! j)
                                    [0..<length product_scores])))))"

definition get_user_content_recommendations ::
  "(real \<Rightarrow> real) \<Rightarrow> (real list \<Rightarrow> nat list) \<Rightarrow> cb_state \<Rightarrow> user_interaction list \<Rightarrow> int \<Rightarrow>
     (string \<times> real) list" where
  "get_user_content_recommendations rnd srt s user_interactions n_recommendations =
     (if \<not> cb_is_trained s \<or> user_interactions = [] then []
      else
        (case cb_product_scores rnd s user_interactions of
           None \<Rightarrow> []
         | Some None \<Rightarrow> []
         | Some (Some product_scores) \<Rightarrow>
             (case collect_positive
                     (py_take n_recommendations (rev (srt product_scores)))
                     product_scores (reverse_product_map s) of
                None \<Rightarrow> []
              | Some recommendations \<Rightarrow> recommendations)))"

section \<open>Recommendation service\<close>

text \<open>
  What a request reads from outside the service: the clock, the database, the file
  system under \<open>model_dir\<close> and the library routines of the filters, among them NumPy's
  \<open>argsort\<close> and the float64 rounding of the similarity computation. Each database call
  returns its result or raises. The clock is read at up to four places of a request:
  by the \<open>_should_retrain\<close> check of \<open>get_recommendations\<close> (\<open>auto_check_time\<close>), by the
  check of \<open>train_models\<close> (\<open>check_time\<close>), and at the start and the end of a training run.
  Times are seconds.
\<close>

record product_details =
  details_name :: string
  details_price :: real
  details_category :: string
  details_images :: "string list"

record env =
  auto_check_time :: real
  check_time :: real
  start_time :: real
  end_time :: real
  count_documents :: "real \<Rightarrow> error + nat"
  get_user_product_matrix :: "error + interaction list"
  find_products :: "error + product list"
  get_user_interactions :: "string \<Rightarrow> error + user_interaction list"
  aggregate_popular :: "int \<Rightarrow> error + (string \<times> nat) list"
  find_product_details :: "string list \<Rightarrow> error + (string \<times> product_details) list"
  dump_ok :: "string \<Rightarrow> bool"
  svd :: "int \<Rightarrow> matrix \<Rightarrow> error + matrix"
  prepare_product_data :: "product list \<Rightarrow> error + product_row list"
  extract_features :: "product_row list \<Rightarrow> error + matrix"
  rounding :: "real \<Rightarrow> real"
  argsort :: "real list \<Rightarrow> nat list"

text \<open>The three files of \<open>model_dir\<close>, each absent or holding what was last dumped.\<close>

record disk =
  collaborative_model_pkl :: "cf_state option"
  content_model_pkl :: "cb_state option"
  training_metadata_pkl :: "(real option \<times> int) option"

record service =
  collaborative_filter :: cf_state
  content_filter :: cb_state
  last_training_time :: "real option"
  retrain_interval_hours :: int
  min_new_interactions :: int
  model_dir :: disk

text \<open>
  \<open>__init__\<close> with \<open>_load_models\<close>: the two configuration values come from the environment
  variables \<open>RETRAIN_INTERVAL_HOURS\<close> and \<open>MIN_NEW_INTERACTIONS\<close> (\<open>None\<close> when unset), with
  defaults 24 and 100; a filter or the last training time is taken from its file when
  the file exists.
\<close>

definition RecommendationService :: "int option \<Rightarrow> int option \<Rightarrow> disk \<Rightarrow> service" where
  "RecommendationService interval_var min_new_var d =
     \<lparr>collaborative_filter =
        (case collaborative_model_pkl d of None \<Rightarrow> CollaborativeFiltering 50 5 | Some c \<Rightarrow> c),
      content_filter =
        (case content_model_pkl d of None \<Rightarrow> ContentBasedFiltering 1000 | Some c \<Rightarrow> c),
      last_training_time =
        (case training_metadata_pkl d of None \<Rightarrow> None | Some (t, _) \<Rightarrow> t),
      retrain_interval_hours = (case interval_var of None \<Rightarrow> 24 | Some h \<Rightarrow> h),
      min_new_interactions = (case min_new_var of None \<Rightarrow> 100 | Some n \<Rightarrow> n),
      model_dir = d\<rparr>"

text \<open>
  \<open>_save_models\<close>: three dumps in a row; the first one that fails ends the function (the
  exception is logged, not raised).
\<close>

definition save_models :: "env \<Rightarrow> service \<Rightarrow> service" where
  "save_models e s =
     (if \<not> dump_ok e ''collaborative_model.pkl'' then s
      else
        (let d1 = (model_dir s)\<lparr>collaborative_model_pkl := Some (collaborative_filter s)\<rparr>
         in if \<not> dump_ok e ''content_model.pkl'' then s\<lparr>model_dir := d1\<rparr>
            else
              (let d2 = d1\<lparr>content_model_pkl := Some (content_filter s)\<rparr>
               in if \<not> dump_ok e ''training_metadata.pkl'' then s\<lparr>model_dir := d2\<rparr>
                  else s\<lparr>model_dir :=
                           d2\<lparr>training_metadata_pkl :=
                                 Some (last_training_time s, retrain_interval_hours s)\<rparr>\<rparr>)))"

definition get_interaction_data :: "env \<Rightarrow> interaction list" where
  "get_interaction_data e = (case get_user_product_matrix e of Inl _ \<Rightarrow> [] | Inr recs \<Rightarrow> recs)"

definition get_product_data :: "env \<Rightarrow> product list" where
  "get_product_data e = (case find_products e of Inl _ \<Rightarrow> [] | Inr products \<Rightarrow> products)"

text \<open>\<open>_should_retrain\<close>, with the clock reading \<open>now\<close> it takes when a training time is recorded.\<close>

definition should_retrain :: "env \<Rightarrow> real \<Rightarrow> service \<Rightarrow> bool" where
  "should_retrain e now s =
     (case last_training_time s of
        None \<Rightarrow> True
      | Some t \<Rightarrow>
          if now - t < real_of_int (retrain_interval_hours s * 3600) then False
          else
            (case count_documents e t of
               Inl _ \<Rightarrow> False
             | Inr new_interactions \<Rightarrow>
                 if int new_interactions < min_new_interactions s then False else True))"

text \<open>
  The dictionary \<open>train_models\<close> returns. No statement inside its outer \<open>try\<close> raises
  past the inner handlers, so the \<open>'error'\<close> result is never built by the model.
\<close>

datatype training_report =
    Skipped "real option"
  | Success real nat nat "string list" real
  | Failed real

fun status :: "training_report \<Rightarrow> string" where
  "status (Skipped _) = ''skipped''"
| "status (Success _ _ _ _ _) = ''success''"
| "status (Failed _) = ''error''"

fun models_trained :: "training_report \<Rightarrow> string list" where
  "models_trained (Success _ _ _ ms _) = ms"
| "models_trained _ = []"

text \<open>
  The two training steps of \<open>train_models\<close>: each returns the service afterwards and
  what it appends to \<open>results['models_trained']\<close>.
\<close>

definition train_collaborative :: "env \<Rightarrow> interaction list \<Rightarrow> service \<Rightarrow> string list \<times> service" where
  "train_collaborative e recs s =
     (if recs = [] then ([], s)
      else
        (case cf_train (rounding e) (svd e) recs (collaborative_filter s) of
           (Some _, cf) \<Rightarrow> ([], s\<lparr>collaborative_filter := cf\<rparr>)
         | (None, cf) \<Rightarrow>
             (if cf_is_trained cf then [''collaborative_filtering''] else [],
              s\<lparr>collaborative_filter := cf\<rparr>)))"

definition train_content :: "env \<Rightarrow> product list \<Rightarrow> service \<Rightarrow> string list \<times> service" where
  "train_content e products s =
     (if products = [] then ([], s)
      else
        (case cb_train (rounding e) (prepare_product_data e) (extract_features e) products
                (content_filter s) of
           (Some _, cb) \<Rightarrow> ([], s\<lparr>content_filter := cb\<rparr>)
         | (None, cb) \<Rightarrow>
             (if cb_is_trained cb then [''content_based_filtering''] else [],
              s\<lparr>content_filter := cb\<rparr>)))"

definition train_models :: "env \<Rightarrow> bool \<Rightarrow> service \<Rightarrow> training_report \<times> service" where
  "train_models e force_retrain s =
     (if \<not> force_retrain \<and> \<not> should_retrain e (check_time e) s
      then (Skipped (last_training_time s), s)
      else
        (let recs = get_interaction_data e;
             products = get_product_data e;
             (m1, s1) = train_collaborative e recs s;
             (m2, s2) = train_content e products s1;
             s3 = save_models e (s2\<lparr>last_training_time := Some (start_time e)\<rparr>)
         in (Success (start_time e) (length recs) (length products) (m1 @ m2)
               (end_time e - start_time e),
             s3)))"

definition retrain_models :: "env \<Rightarrow> service \<Rightarrow> training_report \<times> service" where
  "retrain_models e s = train_models e True s"

section \<open>Recommendation service: \<open>get_recommendations\<close>\<close>

record recommendation =
  rec_productId :: string
  rec_score :: real
  algorithm :: string
  reason :: string
  contributing_algorithms :: "string list option"
  details :: "product_details option"

definition candidate :: "string \<Rightarrow> string \<Rightarrow> string \<times> real \<Rightarrow> recommendation" where
  "candidate alg why pr =
     \<lparr>rec_productId = fst pr, rec_score = snd pr, algorithm = alg, reason = why,
      contributing_algorithms = None, details = None\<rparr>"

text \<open>
  The hybrid step. \<open>product_scores\<close> is a dictionary keyed by product id; its values are
  kept in the order in which their keys were first inserted.
\<close>

record product_score =
  ps_productId :: string
  total_score :: real
  algorithms :: "string list"
  reasons :: "string list"

fun add_to_product_scores :: "recommendation \<Rightarrow> product_score list \<Rightarrow> product_score list" where
  "add_to_product_scores r [] =
     [\<lparr>ps_productId = rec_productId r, total_score = 0 + rec_score r,
       algorithms = [algorithm r], reasons = [reason r]\<rparr>]"
| "add_to_product_scores r (x # xs) =
     (if ps_productId x = rec_productId r
      then x\<lparr>total_score := total_score x + rec_score r,
             algorithms := algorithms x @ [algorithm r],
             reasons := reasons x @ [reason r]\<rparr> # xs
      else x # add_to_product_scores r xs)"

definition group_by_product :: "recommendation list \<Rightarrow> product_score list" where
  "group_by_product recs = foldl (\<lambda>acc r. add_to_product_scores r acc) [] recs"

definition hybrid_entry :: "product_score \<Rightarrow> recommendation" where
  "hybrid_entry x =
     \<lparr>rec_productId = ps_productId x, rec_score = total_score x, algorithm = ''hybrid'',
      reason = ''Recommended by multiple algorithms'',
      contributing_algorithms = Some (algorithms x), details = None\<rparr>"

definition hybrid :: "int \<Rightarrow> recommendation list \<Rightarrow> recommendation list" where
  "hybrid limit recs =
     map hybrid_entry (py_take limit (sorted_reverse total_score (group_by_product recs)))"

definition get_popular_products :: "env \<Rightarrow> int \<Rightarrow> recommendation list" where
  "get_popular_products e limit =
     (case aggregate_popular e limit of
        Inl _ \<Rightarrow> []
      | Inr popular_products \<Rightarrow>
          map (\<lambda>(pid, n). candidate ''popularity'' ''Popular among all users'' (pid, real n))
            popular_products)"

definition enrich_recommendations :: "env \<Rightarrow> recommendation list \<Rightarrow> recommendation list" where
  "enrich_recommendations e recs =
     (if recs = [] then recs
      else
        (case find_product_details e (map rec_productId recs) of
           Inl _ \<Rightarrow> recs
         | Inr found \<Rightarrow>
             map (\<lambda>r. r\<lparr>details := dict_of found (rec_productId r)\<rparr>)
               (filter (\<lambda>r. dict_of found (rec_productId r) \<noteq> None) recs)))"

text \<open>Step 1 of \<open>get_recommendations\<close>: the inline training when the check asks for it.\<close>

definition auto_train :: "env \<Rightarrow> service \<Rightarrow> service" where
  "auto_train e s =
     (if should_retrain e (auto_check_time e) s then snd (train_models e False s) else s)"

definition collaborative_candidates ::
  "env \<Rightarrow> service \<Rightarrow> string \<Rightarrow> int \<Rightarrow> string option \<Rightarrow> recommendation list" where
  "collaborative_candidates e s user_id limit alg =
     (if (alg = Some ''collaborative'' \<or> alg = None) \<and> cf_is_trained (collaborative_filter s)
      then map (candidate ''collaborative_filtering''
                  ''Users with similar preferences also liked this'')
             (get_user_recommendations (argsort e) (collaborative_filter s) user_id limit)
      else [])"

definition content_candidates ::
  "env \<Rightarrow> service \<Rightarrow> user_interaction list \<Rightarrow> int \<Rightarrow> string option \<Rightarrow> recommendation list" where
  "content_candidates e s user_interactions limit alg =
     (if (alg = Some ''content'' \<or> alg = None) \<and> cb_is_trained (content_filter s) \<and>
         user_interactions \<noteq> []
      then map (candidate ''content_based_filtering'' ''Based on products you have viewed'')
             (get_user_content_recommendations (rounding e) (argsort e) (content_filter s)
                user_interactions limit)
      else [])"

definition get_recommendations ::
  "env \<Rightarrow> service \<Rightarrow> string \<Rightarrow> int \<Rightarrow> string option \<Rightarrow> recommendation list \<times> service" where
  "get_recommendations e s user_id limit alg =
     (let s1 = auto_train e s
      in case get_user_interactions e user_id of
           Inl _ \<Rightarrow> ([], s1)
         | Inr user_interactions \<Rightarrow>
             (let recs = collaborative_candidates e s1 user_id limit alg @
                         content_candidates e s1 user_interactions limit alg;
                  recs1 = (if alg = None \<and> recs \<noteq> [] then hybrid limit recs else recs);
                  recs2 = (if recs1 = [] then get_popular_products e limit else recs1)
              in (py_take limit (enrich_recommendations e recs2), s1)))"

section \<open>What the claims say of a similarity matrix\<close>



section \<open>What the claims say of the hybrid step\<close>

text \<open>
  \<open>merged_entry q recs\<close>: the entry the hybrid step is to hold for product \<open>q\<close>: the sum of
  the scores, and the algorithm tags and reasons in order, of the candidates for \<open>q\<close>.
  \<open>in_catalogue e ids q\<close>: the lookup of the products \<open>ids\<close> made by
  \<open>_enrich_recommendations\<close> keeps an entry for \<open>q\<close>, because it returns \<open>q\<close> or because it
  raises (the entries are then returned as they are).
\<close>

definition merged_entry :: "string \<Rightarrow> recommendation list \<Rightarrow> product_score" where
  "merged_entry q recs =
     \<lparr>ps_productId = q,
      total_score = sum_list (map rec_score (filter (\<lambda>r. rec_productId r = q) recs)),
      algorithms = map algorithm (filter (\<lambda>r. rec_productId r = q) recs),
      reasons = map reason (filter (\<lambda>r. rec_productId r = q) recs)\<rparr>"

definition in_catalogue :: "env \<Rightarrow> string list \<Rightarrow> string \<Rightarrow> bool" where
  "in_catalogue e ids q =
     (case find_product_details e ids of Inl _ \<Rightarrow> True | Inr found \<Rightarrow> dict_of found q \<noteq> None)"

section \<open>Example data\<close>

definition mk_interaction :: "string \<Rightarrow> string \<Rightarrow> int \<Rightarrow> string list \<Rightarrow> interaction" where
  "mk_interaction u p n ts =
     \<lparr>userId = u, productId = p, interactions = n, interactionTypes = Some ts\<rparr>"

definition purchase_after_view :: "interaction list" where
  "purchase_after_view =
     [mk_interaction ''u1'' ''p1'' 2 [''view'', ''cart_add''],
      mk_interaction ''u1'' ''p2'' 3 [''view'', ''cart_add''],
      mk_interaction ''u2'' ''p1'' 1 [''view'', ''cart_add''],
      mk_interaction ''u2'' ''p2'' 4 [''purchase''],
      mk_interaction ''u2'' ''p3'' 2 [''view'', ''cart_add''],
      mk_interaction ''u3'' ''p1'' 7 [],
      mk_interaction ''u3'' ''p2'' 2 [''view'', ''cart_add''],
      mk_interaction ''u3'' ''p3'' 2 [''view'', ''cart_add'']]"

text \<open>A record whose \<open>interactionTypes\<close> is \<open>None\<close>.\<close>

definition untyped_record :: interaction where
  "untyped_record =
     \<lparr>userId = ''u1'', productId = ''p1'', interactions = 1, interactionTypes = None\<rparr>"

text \<open>
  Stand-ins for the two pandas and scikit-learn pipelines of the content filter: the
  frame keeps id, category and price of each product, and the feature vector of a
  product is a constant 1 followed by its price.
\<close>

definition plain_rows :: "product list \<Rightarrow> error + product_row list" where
  "plain_rows ps =
     Inr (map (\<lambda>p. \<lparr>row_id = product_id p, combined_text = [],
                     row_category = (case category p of None \<Rightarrow> ''uncategorized'' | Some c \<Rightarrow> c),
                     row_price = (case price p of None \<Rightarrow> 0 | Some x \<Rightarrow> x),
                     price_category = []\<rparr>) ps)"

definition price_features :: "product_row list \<Rightarrow> error + matrix" where
  "price_features df = Inr (map (\<lambda>r. [1, row_price r]) df)"

definition mk_product :: "string \<Rightarrow> string \<Rightarrow> real \<Rightarrow> product" where
  "mk_product i c x =
     \<lparr>product_id = i, name = None, description = None, category = Some c, price = Some x,
      tags = None\<rparr>"

definition empty_disk :: disk where
  "empty_disk = \<lparr>collaborative_model_pkl = None, content_model_pkl = None,
                 training_metadata_pkl = None\<rparr>"

text \<open>
  A shop with no interactions and no products, read one day after time 0; and the same
  shop with one malformed interaction record and two products. The examples compute
  without rounding and with the stable \<open>argsort\<close>.
\<close>

definition empty_shop :: env where
  "empty_shop =
     \<lparr>auto_check_time = 86400, check_time = 86400, start_time = 86401, end_time = 86402,
      count_documents = (\<lambda>t. Inr 100), get_user_product_matrix = Inr [],
      find_products = Inr [], get_user_interactions = (\<lambda>u. Inr []),
      aggregate_popular = (\<lambda>n. Inr []), find_product_details = (\<lambda>ids. Inr []),
      dump_ok = (\<lambda>p. True), svd = (\<lambda>k m. Inr m), prepare_product_data = plain_rows,
      extract_features = price_features, rounding = exact, argsort = stable_argsort\<rparr>"

definition broken_history_shop :: env where
  "broken_history_shop =
     empty_shop\<lparr>get_user_product_matrix := Inr [untyped_record],
                find_products := Inr
                    [mk_product ''p1'' ''books'' 3, mk_product ''p2'' ''books'' 4]\<rparr>"

text \<open>A service with the default configuration, last trained at time 0.\<close>

definition day_old_service :: service where
  "day_old_service = (RecommendationService None None empty_disk)\<lparr>last_training_time := Some 0\<rparr>"

text \<open>
  Two users and three products, with the settings of the repository's unit tests
  (\<open>n_components = 5\<close>, \<open>min_interactions = 2\<close>): \<open>u1\<close> met \<open>p1\<close> only, \<open>u2\<close> met all three
  products, \<open>p2\<close> and \<open>p3\<close> with the same score. \<open>tie_model\<close> is the filter trained on
  them, and \<open>tie_cf\<close> spells its attributes out.
\<close>

definition tie_interactions :: "interaction list" where
  "tie_interactions =
     [mk_interaction ''u1'' ''p1'' 5 [''view'', ''cart_add'', ''purchase''],
      mk_interaction ''u2'' ''p1'' 1 [''view''],
      mk_interaction ''u2'' ''p2'' 2 [''cart_add''],
      mk_interaction ''u2'' ''p3'' 1 [''cart_add'']]"

definition tie_model :: cf_state where
  "tie_model =
     snd (cf_train exact (\<lambda>k m. Inr m) tie_interactions (CollaborativeFiltering 5 2))"

definition tie_cf :: cf_state where
  "tie_cf =
     \<lparr>n_components = 5, min_interactions = 2,
      user_item_matrix = Some [[6, 0, 0], [1, 2, 2]],
      user_similarity_matrix = Some [[1, 1 / 3], [1 / 3, 1]],
      user_index_map = index_map [''u1'', ''u2''],
      item_index_map = index_map [''p1'', ''p2'', ''p3''],
      reverse_user_map = reverse_map [''u1'', ''u2''],
      reverse_item_map = reverse_map [''p1'', ''p2'', ''p3''],
      cf_is_trained = True\<rparr>"




text \<open>Two products with the same category and price, hence the same feature vector.\<close>

definition twin_products :: "product list" where
  "twin_products = [mk_product ''p1'' ''books'' 3, mk_product ''p2'' ''books'' 3]"

text \<open>The content filter trained on the two twin products.\<close>

definition twin_model :: cb_state where
  "twin_model =
     snd (cb_train exact plain_rows price_features twin_products (ContentBasedFiltering 1000))"


text \<open>
  A shop for the hybrid step (the short ids stand for the database's id strings). The
  collaborative filter is trained on the interactions of three users, with
  \<open>min_interactions = 2\<close>; the content filter on three products whose feature vectors
  are given outright: \<open>p2\<close> and \<open>p9\<close> have the same vector, \<open>p7\<close> a vector at cosine
  \<open>7/25\<close> from it. User \<open>u1\<close> has viewed \<open>p9\<close>. The service was last trained at time 0 and
  is asked at time 100, so no inline training takes place; the catalogue knows every
  product.
\<close>

definition shop_interactions :: "interaction list" where
  "shop_interactions =
     [mk_interaction ''u1'' ''p9'' 4 [''view'', ''cart_add'', ''purchase''],
      mk_interaction ''u2'' ''p1'' 1 [''cart_add''],
      mk_interaction ''u2'' ''p7'' 1 [''view''],
      mk_interaction ''u2'' ''p9'' 2 [''cart_add''],
      mk_interaction ''u3'' ''p7'' 1 [''view'']]"

definition shop_cf :: cf_state where
  "shop_cf =
     snd (cf_train exact (\<lambda>k m. Inr m) shop_interactions (CollaborativeFiltering 5 2))"

definition shop_products :: "product list" where
  "shop_products =
     [mk_product ''p2'' ''books'' 10, mk_product ''p7'' ''games'' 20,
      mk_product ''p9'' ''books'' 10]"

definition shop_features :: "product_row list \<Rightarrow> error + matrix" where
  "shop_features df = Inr [[1, 0], [7 / 25, 24 / 25], [1, 0]]"

definition shop_cb :: cb_state where
  "shop_cb =
     snd (cb_train exact plain_rows shop_features shop_products (ContentBasedFiltering 1000))"

definition shop_history :: "user_interaction list" where
  "shop_history = [\<lparr>ui_productId = ''p9'', ui_interactionType = ''view''\<rparr>]"

definition shop_env :: env where
  "shop_env =
     empty_shop\<lparr>auto_check_time := 100,
                get_user_interactions := (\<lambda>u. Inr shop_history),
                find_product_details :=
                  (\<lambda>ids. Inr (map (\<lambda>i. (i, \<lparr>details_name = i, details_price = 10,
                                                details_category = ''books'',
                                                details_images = []\<rparr>)) ids))\<rparr>"

definition shop_service :: service where
  "shop_service =
     \<lparr>collaborative_filter = shop_cf, content_filter = shop_cb, last_training_time = Some 0,
      retrain_interval_hours = 24, min_new_interactions = 100, model_dir = empty_disk\<rparr>"
section \<open>Auxiliary lemmas\<close>

subsection \<open>Dot products and cosine similarity\<close>




lemma foldl_add_products:
  fixes a :: real
  shows "foldl (\<lambda>acc (x, y). acc + x * y) a zs = a + sum_list (map (\<lambda>(x, y). x * y) zs)"
  by (induction zs arbitrary: a) (simp_all add: case_prod_unfold)

lemma dot_exact: "dot exact u v = sum_list (map2 (*) u v)"
  by (simp add: dot_def exact_def foldl_add_products)

lemma dot_self: "dot exact v v = sum_list (map (\<lambda>x. x * x) v)"
  by (simp add: dot_exact zip_same_conv_map comp_def)

lemma dot_self_nonneg: "0 \<le> dot exact v v"
  unfolding dot_self by (rule sum_list_nonneg) auto

lemma dot_self_zero: "dot exact v v = 0 \<longleftrightarrow> (\<forall>x\<in>set v. x = 0)"
proof -
  have "sum_list (map (\<lambda>x. x * x) v) = 0 \<longleftrightarrow> (\<forall>y\<in>set (map (\<lambda>x. x * x) v). y = 0)"
    by (rule sum_list_nonneg_eq_0_iff) auto
  then show ?thesis by (simp add: dot_self)
qed

lemma l2_norm_zero: "l2_norm exact v = 0 \<longleftrightarrow> (\<forall>x\<in>set v. x = 0)"
  by (simp add: l2_norm_def dot_self_zero) (simp add: exact_def dot_self_zero)

lemma dot_scaled:
  "dot exact (map (\<lambda>x. x / c) u) (map (\<lambda>x. x / c) v) = dot exact u v / (c * c)"
proof (induction u arbitrary: v)
  case Nil
  then show ?case by (simp add: dot_exact)
next
  case (Cons a u)
  show ?case
  proof (cases v)
    case Nil
    then show ?thesis by (simp add: dot_exact)
  next
    case (Cons b w)
    with Cons.IH[of w] show ?thesis
      by (simp add: dot_exact add_divide_distrib)
  qed
qed

lemma normalize_row_exact:
  "normalize_row exact v = map (\<lambda>x. x / (if l2_norm exact v = 0 then 1 else l2_norm exact v)) v"
  by (simp add: normalize_row_def) (simp add: exact_def)

lemma dot_normalize_self:
  "dot exact (normalize_row exact v) (normalize_row exact v) =
     (if \<forall>x\<in>set v. x = 0 then 0 else 1)"
proof (cases "l2_norm exact v = 0")
  case True
  then have "dot exact v v = 0" by (simp add: l2_norm_zero dot_self_zero)
  with True show ?thesis
    by (simp add: normalize_row_exact dot_scaled l2_norm_zero[symmetric])
next
  case False
  have n: "l2_norm exact v = sqrt (dot exact v v)" by (simp add: l2_norm_def) (simp add: exact_def)
  have "l2_norm exact v * l2_norm exact v = dot exact v v"
    by (simp add: n dot_self_nonneg)
  moreover from False have "dot exact v v \<noteq> 0" by (simp add: n)
  ultimately show ?thesis using False
    by (simp add: normalize_row_exact dot_scaled l2_norm_zero[symmetric])
qed









subsection \<open>Training\<close>

lemma cf_train_raise_untrained:
  "fst (cf_train rnd sv recs s) = Some e \<Longrightarrow> \<not> cf_is_trained (snd (cf_train rnd sv recs s))"
  by (auto simp: cf_train_def Let_def split: sum.splits if_splits prod.splits)

lemma cb_train_raise_untrained:
  "fst (cb_train rnd pp ef ps s) = Some e \<Longrightarrow> \<not> cb_is_trained (snd (cb_train rnd pp ef ps s))"
  by (auto simp: cb_train_def Let_def split: sum.splits if_splits prod.splits)

lemma train_collaborative_eq:
  "train_collaborative e recs s =
     (if recs = [] then ([], s)
      else (if cf_is_trained (snd (cf_train (rounding e) (svd e) recs (collaborative_filter s)))
            then [''collaborative_filtering''] else [],
            s\<lparr>collaborative_filter := snd (cf_train (rounding e) (svd e) recs
                (collaborative_filter s))\<rparr>))"
  using cf_train_raise_untrained[of "rounding e" "svd e" recs "collaborative_filter s"]
  by (auto simp: train_collaborative_def split: prod.splits option.splits)

lemma train_content_eq:
  "train_content e ps s =
     (if ps = [] then ([], s)
      else (if cb_is_trained (snd (cb_train (rounding e) (prepare_product_data e)
          (extract_features e) ps
                                      (content_filter s)))
            then [''content_based_filtering''] else [],
            s\<lparr>content_filter := snd (cb_train (rounding e) (prepare_product_data e)
                (extract_features e) ps
                                        (content_filter s))\<rparr>))"
  using cb_train_raise_untrained[of "rounding e" "prepare_product_data e" "extract_features e" ps
      "content_filter s"]
  by (auto simp: train_content_def split: prod.splits option.splits)

lemma save_models_fields:
  "collaborative_filter (save_models e s) = collaborative_filter s"
  "content_filter (save_models e s) = content_filter s"
  "last_training_time (save_models e s) = last_training_time s"
  by (simp_all add: save_models_def Let_def)

lemma cf_train_Inl:
  "prepare_data (min_interactions s) recs = Inl e \<Longrightarrow>
   cf_train rnd sv recs s = (Some e, s\<lparr>cf_is_trained := False\<rparr>)"
  by (simp add: cf_train_def)

lemma cf_train_Nil:
  "prepare_data (min_interactions s) recs = Inr [] \<Longrightarrow>
   cf_train rnd sv recs s = (None, s\<lparr>cf_is_trained := False\<rparr>)"
  by (simp add: cf_train_def)

lemma cf_train_Inr:
  assumes "prepare_data (min_interactions s) recs = Inr df" and "df \<noteq> []"
  shows "cf_train rnd sv recs s =
     (if matrix_size (pivot_table df) = 0
      then (None, (snd (create_user_item_matrix df s))
                    \<lparr>user_item_matrix := Some (pivot_table df), cf_is_trained := False\<rparr>)
      else
        (case (if n_components s < int (shape1 (pivot_table df))
               then sv (n_components s) (pivot_table df) else Inr (pivot_table df)) of
           Inl e \<Rightarrow>
             (Some e, (snd (create_user_item_matrix df s))
                        \<lparr>user_item_matrix := Some (pivot_table df), cf_is_trained := False\<rparr>)
         | Inr X \<Rightarrow>
             (None, (snd (create_user_item_matrix df s))
                      \<lparr>user_item_matrix := Some (pivot_table df),
                       user_similarity_matrix := Some (cosine_similarity rnd X),
                       cf_is_trained := True\<rparr>)))"
  using assms
  by (simp add: cf_train_def create_user_item_matrix_def Let_def split: sum.split)

lemma cb_train_Inl:
  "pp ps = Inl e \<Longrightarrow> cb_train rnd pp ef ps c = (Some e, c\<lparr>cb_is_trained := False\<rparr>)"
  by (simp add: cb_train_def)

lemma cb_train_Nil:
  "pp ps = Inr [] \<Longrightarrow> cb_train rnd pp ef ps c = (None, c\<lparr>cb_is_trained := False\<rparr>)"
  by (simp add: cb_train_def)

lemma cb_train_Inr:
  assumes "pp ps = Inr df" and "df \<noteq> []"
  shows "cb_train rnd pp ef ps c =
     (case ef df of
        Inl e \<Rightarrow>
          (Some e, c\<lparr>product_index_map := index_map (map row_id df),
                     reverse_product_map := reverse_map (map row_id df),
                     cb_is_trained := False\<rparr>)
      | Inr X \<Rightarrow>
          if matrix_size X = 0
          then (None, c\<lparr>product_index_map := index_map (map row_id df),
                         reverse_product_map := reverse_map (map row_id df),
                         product_features := Some X, cb_is_trained := False\<rparr>)
          else (None, c\<lparr>product_index_map := index_map (map row_id df),
                         reverse_product_map := reverse_map (map row_id df),
                         product_features := Some X,
                         product_similarity_matrix := Some (cosine_similarity rnd X),
                         cb_is_trained := True\<rparr>))"
  using assms
  by (simp add: cb_train_def Let_def split: sum.split)




subsection \<open>Sorting and slicing\<close>







lemma argsort_of_sort_key:
  assumes "set ys = {..<length xs}" and "distinct ys"
  shows "argsort_of xs (sort_key (\<lambda>i. xs ! i) ys)"
proof -
  let ?p = "sort_key (\<lambda>i. xs ! i) ys"
  have "set (sort ?p) = set [0..<length xs]" by (simp add: assms(1) atLeast0LessThan)
  moreover have "distinct (sort ?p)" using assms(2) by simp
  ultimately have "sort ?p = [0..<length xs]"
    by (intro sorted_distinct_set_unique) simp_all
  then show ?thesis by (simp add: argsort_of_def)
qed


lemma is_argsort_reverse_stable: "is_argsort reverse_stable_argsort"
  unfolding is_argsort_def reverse_stable_argsort_def
  by (intro allI argsort_of_sort_key) (simp_all add: atLeast0LessThan)

lemma argsort_of_pair:
  assumes "argsort_of [a, b] p"
  shows "p = [0, 1] \<or> p = [1, 0]"
proof -
  from assms have s: "sort p = [0, 1]" by (simp add: argsort_of_def upt_rec)
  have "length (sort p) = length p" by simp
  with s have "length p = 2" by simp
  then obtain x y where p: "p = [x, y]"
    by (cases p; cases "tl p") auto
  with s show ?thesis by (auto split: if_splits)
qed

lemma sorted_wrt_py_take: "sorted_wrt R xs \<Longrightarrow> sorted_wrt R (py_take n xs)"
  by (simp add: py_take_def sorted_wrt_take)

lemma set_py_take: "set (py_take n xs) \<subseteq> set xs"
  by (auto simp: py_take_def dest: in_set_takeD)


lemma length_py_take: "0 \<le> n \<Longrightarrow> int (length (py_take n xs)) \<le> n"
  by (simp add: py_take_def)

subsection \<open>Recommendations of the collaborative filter\<close>





subsection \<open>The example models\<close>

lemma tie_prepare_data: "prepare_data 2 tie_interactions =
   Inr [with_score (mk_interaction ''u1'' ''p1'' 5 [''view'', ''cart_add'', ''purchase'']) 6,
        with_score (mk_interaction ''u2'' ''p1'' 1 [''view'']) 1,
        with_score (mk_interaction ''u2'' ''p2'' 2 [''cart_add'']) 2,
        with_score (mk_interaction ''u2'' ''p3'' 1 [''cart_add'']) 2]"
  by (simp add: prepare_data_def calculate_scores_def tie_interactions_def
      mk_interaction_def add_weight_def interaction_weights_def contains_type_def
      fillna_def with_score_def group_sum_def interaction.extend_def scored.fields_def)

lemma sqrt_36: "sqrt 36 = 6"
  using real_sqrt_abs[of 6] by simp

lemma sqrt_9: "sqrt 9 = 3"
  using real_sqrt_abs[of 3] by simp

lemma tie_cosine: "cosine_similarity exact [[6, 0, 0], [1, 2, 2]] = [[1, 1 / 3], [1 / 3, 1]]"
  by (simp add: cosine_similarity_def cosine_similarity_xy_def normalize_row_def l2_norm_def
      dot_exact exact_def sqrt_36 sqrt_9)

lemma tie_pivot: "pivot_table
    [with_score (mk_interaction ''u1'' ''p1'' 5 [''view'', ''cart_add'', ''purchase'']) 6,
        with_score (mk_interaction ''u2'' ''p1'' 1 [''view'']) 1,
        with_score (mk_interaction ''u2'' ''p2'' 2 [''cart_add'']) 2,
        with_score (mk_interaction ''u2'' ''p3'' 1 [''cart_add'']) 2] = [[6, 0, 0], [1, 2, 2]]"
  by (simp add: pivot_table_def pivot_index_def pivot_cell_def with_score_def mk_interaction_def
       interaction.extend_def scored.fields_def)

lemma tie_cf_trained:
  "cf_train exact (\<lambda>k m. Inr m) tie_interactions (CollaborativeFiltering 5 2) =
     (None, tie_cf)"
  by (simp add: cf_train_def tie_prepare_data CollaborativeFiltering_def
      create_user_item_matrix_def tie_pivot matrix_size_def shape1_def tie_cosine tie_cf_def)
     (simp add: pivot_index_def with_score_def mk_interaction_def
       interaction.extend_def scored.fields_def)

lemma tie_model_eq: "tie_model = tie_cf"
  by (simp add: tie_model_def tie_cf_trained)

lemma upt_small: "[0..<3] = [0, 1, 2]" "[0..<2] = [0, 1]"
  by (simp_all add: upt_rec)



lemma twin_rows: "plain_rows twin_products =
      Inr [\<lparr>row_id = ''p1'', combined_text = [], row_category = ''books'', row_price = 3,
             price_category = []\<rparr>,
           \<lparr>row_id = ''p2'', combined_text = [], row_category = ''books'', row_price = 3,
             price_category = []\<rparr>]"
  by (simp add: plain_rows_def twin_products_def mk_product_def)

lemma twin_cosine: "cosine_similarity exact [[1, 3], [1, 3]] = [[1, 1], [1, 1]]"
  by (simp add: cosine_similarity_def cosine_similarity_xy_def dot_normalize_self)

lemma twin_model_eq:
  "twin_model =
     (ContentBasedFiltering 1000)
       \<lparr>product_index_map := index_map [''p1'', ''p2''],
        reverse_product_map := reverse_map [''p1'', ''p2''],
        product_features := Some [[1, 3], [1, 3]],
        product_similarity_matrix := Some [[1, 1], [1, 1]],
        cb_is_trained := True\<rparr>"
  unfolding twin_model_def
  by (subst cb_train_Inr[of plain_rows twin_products _ exact price_features, OF twin_rows])
    (simp_all add: price_features_def matrix_size_def twin_cosine)





subsection \<open>The hybrid step\<close>

lemma find_add_to_product_scores:
  "find (\<lambda>x. ps_productId x = q) (add_to_product_scores r xs) =
     (if q = rec_productId r
      then Some (case find (\<lambda>x. ps_productId x = q) xs of
                   None \<Rightarrow> \<lparr>ps_productId = q, total_score = 0 + rec_score r,
                             algorithms = [algorithm r], reasons = [reason r]\<rparr>
                 | Some x \<Rightarrow> x\<lparr>total_score := total_score x + rec_score r,
                               algorithms := algorithms x @ [algorithm r],
                               reasons := reasons x @ [reason r]\<rparr>)
      else find (\<lambda>x. ps_productId x = q) xs)"
  by (induction xs) auto

lemma ids_add_to_product_scores:
  "map ps_productId (add_to_product_scores r xs) =
     (if rec_productId r \<in> ps_productId ` set xs then map ps_productId xs
      else map ps_productId xs @ [rec_productId r])"
  by (induction xs) auto

lemma group_by_product_snoc:
  "group_by_product (recs @ [r]) = add_to_product_scores r (group_by_product recs)"
  by (simp add: group_by_product_def)

lemma distinct_group_by_product: "distinct (map ps_productId (group_by_product recs))"
proof (induction recs rule: rev_induct)
  case Nil
  then show ?case by (simp add: group_by_product_def)
next
  case (snoc r recs)
  then show ?case by (auto simp: group_by_product_snoc ids_add_to_product_scores)
qed

lemma ids_group_by_product:
  "ps_productId ` set (group_by_product recs) = rec_productId ` set recs"
proof (induction recs rule: rev_induct)
  case Nil
  then show ?case by (simp add: group_by_product_def)
next
  case (snoc r recs)
  have "set (map ps_productId (group_by_product (recs @ [r]))) =
          insert (rec_productId r) (set (map ps_productId (group_by_product recs)))"
    unfolding group_by_product_snoc ids_add_to_product_scores by auto
  with snoc show ?case by auto
qed

lemma filter_unknown_product:
  "q \<notin> rec_productId ` set recs \<Longrightarrow> filter (\<lambda>r. rec_productId r = q) recs = []"
  by (auto simp: filter_empty_conv)

lemma find_distinct_key:
  "distinct (map f xs) \<Longrightarrow> x \<in> set xs \<Longrightarrow> find (\<lambda>y. f y = f x) xs = Some x"
  by (induction xs) auto

lemma find_group_by_product:
  "find (\<lambda>x. ps_productId x = q) (group_by_product recs) =
     (if q \<in> rec_productId ` set recs then Some (merged_entry q recs) else None)"
proof (induction recs rule: rev_induct)
  case Nil
  then show ?case by (simp add: group_by_product_def)
next
  case (snoc r recs)
  show ?case
    unfolding group_by_product_snoc find_add_to_product_scores snoc.IH
    by (auto simp: merged_entry_def filter_unknown_product)
qed

lemma group_by_product_entry:
  assumes "x \<in> set (group_by_product recs)"
  shows "x = merged_entry (ps_productId x) recs"
proof -
  have "find (\<lambda>y. ps_productId y = ps_productId x) (group_by_product recs) = Some x"
    using distinct_group_by_product assms by (rule find_distinct_key)
  then show ?thesis by (auto simp: find_group_by_product split: if_splits)
qed

lemma set_sorted_reverse: "set (sorted_reverse f xs) = set xs"
  by (simp add: sorted_reverse_def)

lemma distinct_sorted_reverse: "distinct (sorted_reverse f xs) = distinct xs"
  by (simp add: sorted_reverse_def)

lemma sorted_reverse_descending:
  "sorted_wrt (\<lambda>x y. f y \<le> f x) (sorted_reverse f xs)"
proof -
  have "sorted (map f (sort_key f (rev xs)))" by (rule sorted_sort_key)
  then have "sorted_wrt (\<lambda>x y. f x \<le> f y) (sort_key f (rev xs))"
    by (simp add: sorted_map)
  then show ?thesis by (simp add: sorted_reverse_def sorted_wrt_rev)
qed

lemma distinct_keys_sorted_reverse:
  assumes "distinct (map g xs)"
  shows "distinct (map g (sorted_reverse f xs))"
proof -
  from assms have "distinct xs" "inj_on g (set xs)" by (simp_all add: distinct_map)
  then show ?thesis
    by (simp add: distinct_map distinct_sorted_reverse set_sorted_reverse)
qed

lemma distinct_keys_py_take: "distinct (map g xs) \<Longrightarrow> distinct (map g (py_take n xs))"
  by (simp add: py_take_def take_map[symmetric])

lemma distinct_keys_filter: "distinct (map g xs) \<Longrightarrow> distinct (map g (filter P xs))"
  by (simp add: distinct_map_filter)

lemma py_take_map: "py_take n (map f xs) = map f (py_take n xs)"
  by (simp add: py_take_def take_map)

lemma py_take_all: "0 \<le> n \<Longrightarrow> int (length xs) \<le> n \<Longrightarrow> py_take n xs = xs"
  by (simp add: py_take_def)

lemma py_take_nonempty: "0 < n \<Longrightarrow> xs \<noteq> [] \<Longrightarrow> py_take n xs \<noteq> []"
  by (simp add: py_take_def)

lemma filter_key_at_most_one:
  "distinct (map f xs) \<Longrightarrow> length (filter (\<lambda>x. f x = v) xs) \<le> 1"
proof (induction xs)
  case Nil
  then show ?case by simp
next
  case (Cons a xs)
  show ?case
  proof (cases "f a = v")
    case True
    from Cons.prems have "f a \<notin> f ` set xs" by simp
    with True have "\<forall>x\<in>set xs. f x \<noteq> v" by blast
    then have "filter (\<lambda>x. f x = v) xs = []" by (simp add: filter_empty_conv)
    with True show ?thesis by simp
  next
    case False
    with Cons show ?thesis by simp
  qed
qed

lemma enrich_recommendations_eq:
  "\<exists>d. enrich_recommendations e recs =
         map (\<lambda>r. r\<lparr>details := d r\<rparr>)
           (filter (\<lambda>r. in_catalogue e (map rec_productId recs) (rec_productId r)) recs)"
proof (cases "recs = []")
  case True
  then show ?thesis by (simp add: enrich_recommendations_def)
next
  case False
  show ?thesis
  proof (cases "find_product_details e (map rec_productId recs)")
    case (Inl x)
    with False have "enrich_recommendations e recs =
        map (\<lambda>r. r\<lparr>details := details r\<rparr>)
          (filter (\<lambda>r. in_catalogue e (map rec_productId recs) (rec_productId r)) recs)"
      by (simp add: enrich_recommendations_def in_catalogue_def)
    then show ?thesis by (intro exI[of _ details])
  next
    case (Inr found)
    with False have "enrich_recommendations e recs =
        map (\<lambda>r. r\<lparr>details := dict_of found (rec_productId r)\<rparr>)
          (filter (\<lambda>r. in_catalogue e (map rec_productId recs) (rec_productId r)) recs)"
      by (simp add: enrich_recommendations_def in_catalogue_def)
    then show ?thesis by (intro exI[of _ "\<lambda>r. dict_of found (rec_productId r)"])
  qed
qed

lemma collaborative_candidates_hybrid:
  "collaborative_candidates e s uid limit None =
     map (candidate ''collaborative_filtering''
            ''Users with similar preferences also liked this'')
       (get_user_recommendations (argsort e) (collaborative_filter s) uid limit)"
  by (simp add: collaborative_candidates_def get_user_recommendations_def)

lemma content_candidates_hybrid:
  "content_candidates e s uis limit None =
     map (candidate ''content_based_filtering'' ''Based on products you have viewed'')
       (get_user_content_recommendations (rounding e) (argsort e) (content_filter s) uis
          limit)"
  by (simp add: content_candidates_def get_user_content_recommendations_def)

lemma filter_candidates:
  "filter (\<lambda>r. rec_productId r = p) (map (candidate alg why) prs) =
     map (candidate alg why) (filter (\<lambda>pr. fst pr = p) prs)"
  by (simp add: filter_map comp_def candidate_def)

lemma hybrid_entry_fields:
  "rec_productId (hybrid_entry x) = ps_productId x"
  "rec_score (hybrid_entry x) = total_score x"
  "algorithm (hybrid_entry x) = ''hybrid''"
  "contributing_algorithms (hybrid_entry x) = Some (algorithms x)"
  by (simp_all add: hybrid_entry_def)

lemma group_by_product_nonempty: "recs \<noteq> [] \<Longrightarrow> group_by_product recs \<noteq> []"
  using ids_group_by_product[of recs] by (cases "group_by_product recs") auto

lemma get_recommendations_hybrid_shape:
  assumes ui: "get_user_interactions e uid = Inr uis"
    and recs: "recs = collaborative_candidates e (auto_train e s) uid limit None @
                      content_candidates e (auto_train e s) uis limit None"
    and ne: "recs \<noteq> []" and pos: "0 < limit"
    and ranked: "ranked = py_take limit (sorted_reverse total_score (group_by_product recs))"
  shows "\<exists>d. fst (get_recommendations e s uid limit None) =
               map (\<lambda>x. (hybrid_entry x)\<lparr>details := d x\<rparr>)
                 (filter (\<lambda>x. in_catalogue e (map ps_productId ranked) (ps_productId x))
                    ranked)"
proof -
  let ?P = "\<lambda>x. in_catalogue e (map ps_productId ranked) (ps_productId x)"
  have sorted_ne: "sorted_reverse total_score (group_by_product recs) \<noteq> []"
    using group_by_product_nonempty[OF ne]
      set_sorted_reverse[of total_score "group_by_product recs"]
    by (metis set_empty)
  have ranked_ne: "ranked \<noteq> []"
    unfolding ranked using pos sorted_ne by (rule py_take_nonempty)
  have hyb: "hybrid limit recs = map hybrid_entry ranked"
    by (simp add: hybrid_def ranked)
  have ids: "map rec_productId (map hybrid_entry ranked) = map ps_productId ranked"
    by (simp add: hybrid_entry_fields comp_def)
  obtain d where en: "enrich_recommendations e (map hybrid_entry ranked) =
        map (\<lambda>r. r\<lparr>details := d r\<rparr>)
          (filter (\<lambda>r. in_catalogue e (map rec_productId (map hybrid_entry ranked))
                         (rec_productId r))
             (map hybrid_entry ranked))"
    using enrich_recommendations_eq[of e "map hybrid_entry ranked"] by blast
  have len: "int (length ranked) \<le> limit"
    unfolding ranked using pos by (intro length_py_take) simp
  have "int (length (filter ?P ranked)) \<le> int (length ranked)"
    by simp
  with len have len': "int (length (filter ?P ranked)) \<le> limit"
    by linarith
  have "fst (get_recommendations e s uid limit None) =
          py_take limit (enrich_recommendations e (map hybrid_entry ranked))"
    using ne ranked_ne hyb unfolding recs
    by (auto simp: get_recommendations_def ui Let_def)
  also have "\<dots> = py_take limit
       (map (\<lambda>x. (hybrid_entry x)\<lparr>details := d (hybrid_entry x)\<rparr>) (filter ?P ranked))"
    unfolding en ids by (simp add: filter_map comp_def hybrid_entry_fields)
  also have "\<dots> = map (\<lambda>x. (hybrid_entry x)\<lparr>details := d (hybrid_entry x)\<rparr>)
          (filter ?P ranked)"
    using pos len' by (intro py_take_all) simp_all
  finally have "fst (get_recommendations e s uid limit None) =
      map (\<lambda>x. (hybrid_entry x)\<lparr>details := (d \<circ> hybrid_entry) x\<rparr>) (filter ?P ranked)"
    by simp
  then show ?thesis by (intro exI[of _ "d \<circ> hybrid_entry"])
qed

subsection \<open>The cart example\<close>








subsection \<open>The shop example\<close>

lemma shop_prepare_data:
  "prepare_data 2 shop_interactions =
     Inr [with_score (mk_interaction ''u1'' ''p9'' 4 [''view'', ''cart_add'', ''purchase'']) 6,
          with_score (mk_interaction ''u2'' ''p1'' 1 [''cart_add'']) 2,
          with_score (mk_interaction ''u2'' ''p7'' 1 [''view'']) 1,
          with_score (mk_interaction ''u2'' ''p9'' 2 [''cart_add'']) 2]"
  by (simp add: prepare_data_def calculate_scores_def shop_interactions_def
      mk_interaction_def add_weight_def interaction_weights_def contains_type_def
      fillna_def with_score_def group_sum_def interaction.extend_def scored.fields_def)

lemma shop_pivot:
  "pivot_table
     [with_score (mk_interaction ''u1'' ''p9'' 4 [''view'', ''cart_add'', ''purchase'']) 6,
      with_score (mk_interaction ''u2'' ''p1'' 1 [''cart_add'']) 2,
      with_score (mk_interaction ''u2'' ''p7'' 1 [''view'']) 1,
      with_score (mk_interaction ''u2'' ''p9'' 2 [''cart_add'']) 2] = [[0, 0, 6], [2, 1, 2]]"
  by (simp add: pivot_table_def pivot_index_def pivot_cell_def with_score_def mk_interaction_def
       interaction.extend_def scored.fields_def)

lemma shop_cosine: "cosine_similarity exact [[0, 0, 6], [2, 1, 2]] = [[1, 2 / 3], [2 / 3, 1]]"
  by (simp add: cosine_similarity_def cosine_similarity_xy_def normalize_row_def l2_norm_def
      dot_exact exact_def sqrt_36 sqrt_9)

lemma shop_cf_eq:
  "shop_cf =
     \<lparr>n_components = 5, min_interactions = 2,
      user_item_matrix = Some [[0, 0, 6], [2, 1, 2]],
      user_similarity_matrix = Some [[1, 2 / 3], [2 / 3, 1]],
      user_index_map = index_map [''u1'', ''u2''],
      item_index_map = index_map [''p1'', ''p7'', ''p9''],
      reverse_user_map = reverse_map [''u1'', ''u2''],
      reverse_item_map = reverse_map [''p1'', ''p7'', ''p9''],
      cf_is_trained = True\<rparr>"
  unfolding shop_cf_def
  by (simp add: cf_train_def shop_prepare_data CollaborativeFiltering_def
      create_user_item_matrix_def shop_pivot matrix_size_def shape1_def shop_cosine)
     (simp add: pivot_index_def with_score_def mk_interaction_def
       interaction.extend_def scored.fields_def)

lemma shop_cf_scores: "cf_item_scores stable_argsort shop_cf 0 = Some [4 / 3, 2 / 3, 0]"
  by (simp add: cf_item_scores_def shop_cf_eq row_def stable_argsort_def shape1_def upt_small
      numeral_2_eq_2 numeral_3_eq_3)

lemma shop_cf_recs:
  "get_user_recommendations stable_argsort shop_cf ''u1'' 2 = [(''p1'', 4 / 3), (''p7'', 2 / 3)]"
  "get_user_recommendations stable_argsort shop_cf ''u1'' 3 = [(''p1'', 4 / 3), (''p7'', 2 / 3)]"
proof -
  have a: "cf_is_trained shop_cf" by (simp add: shop_cf_eq)
  have b: "user_index_map shop_cf ''u1'' = Some 0"
    by (simp add: shop_cf_eq index_map_def dict_of_def enumerate_list_def upt_small)
  have c: "reverse_item_map shop_cf = reverse_map [''p1'', ''p7'', ''p9'']"
    by (simp add: shop_cf_eq)
  have d: "rev (stable_argsort [4 / 3, 2 / 3, 0]) = [0, 1, 2]"
    by (simp add: stable_argsort_def upt_small)
  have e: "reverse_map [''p1'', ''p7'', ''p9''] 0 = Some ''p1''"
    "reverse_map [''p1'', ''p7'', ''p9''] (Suc 0) = Some ''p7''"
    by (simp_all add: index_map_def reverse_map_def dict_of_def enumerate_list_def upt_small)
  show "get_user_recommendations stable_argsort shop_cf ''u1'' 2 = [(''p1'', 4 / 3),
      (''p7'', 2 / 3)]"
    by (simp add: get_user_recommendations_def a b c d e shop_cf_scores py_take_def)
  show "get_user_recommendations stable_argsort shop_cf ''u1'' 3 = [(''p1'', 4 / 3),
      (''p7'', 2 / 3)]"
    by (simp add: get_user_recommendations_def a b c d e shop_cf_scores py_take_def
        numeral_3_eq_3)
qed

lemma shop_rows: "plain_rows shop_products =
      Inr [\<lparr>row_id = ''p2'', combined_text = [], row_category = ''books'', row_price = 10,
             price_category = []\<rparr>,
           \<lparr>row_id = ''p7'', combined_text = [], row_category = ''games'', row_price = 20,
             price_category = []\<rparr>,
           \<lparr>row_id = ''p9'', combined_text = [], row_category = ''books'', row_price = 10,
             price_category = []\<rparr>]"
  by (simp add: plain_rows_def shop_products_def mk_product_def)

lemma shop_cb_eq:
  "shop_cb =
     (ContentBasedFiltering 1000)
       \<lparr>product_index_map := index_map [''p2'', ''p7'', ''p9''],
        reverse_product_map := reverse_map [''p2'', ''p7'', ''p9''],
        product_features := Some [[1, 0], [7 / 25, 24 / 25], [1, 0]],
        product_similarity_matrix :=
          Some (cosine_similarity exact [[1, 0], [7 / 25, 24 / 25], [1, 0]]),
        cb_is_trained := True\<rparr>"
  unfolding shop_cb_def
  by (subst cb_train_Inr[of plain_rows shop_products _ exact shop_features, OF shop_rows])
    (simp_all add: shop_features_def matrix_size_def)

lemma shop_profile_cosine:
  "hd (cosine_similarity_xy exact [[1, 0]] [[1, 0], [7 / 25, 24 / 25], [1, 0]]) = [1, 7 / 25, 1]"
  by (simp add: cosine_similarity_xy_def normalize_row_def l2_norm_def dot_exact exact_def)

lemma shop_cb_scores: "cb_product_scores exact shop_cb shop_history = Some (Some [1, 7 / 25, 0])"
proof -
  have f: "product_features shop_cb = Some [[1, 0], [7 / 25, 24 / 25], [1, 0]]"
    by (simp add: shop_cb_eq)
  have m: "product_index_map shop_cb = index_map [''p2'', ''p7'', ''p9'']"
    by (simp add: shop_cb_eq)
  have i: "index_map [''p2'', ''p7'', ''p9''] ''p9'' = Some 2"
    "index_map [''p2'', ''p7'', ''p9''] ''p9'' \<noteq> Some 0"
    "index_map [''p2'', ''p7'', ''p9''] ''p9'' \<noteq> Some (Suc 0)"
    by (simp_all add: index_map_def dict_of_def enumerate_list_def upt_small)
  have p: "profile_loop shop_history (index_map [''p2'', ''p7'', ''p9''])
             [[1, 0], [7 / 25, 24 / 25], [1, 0]] ([0, 0], 0, []) = Some ([1, 0], 1, [''p9''])"
    by (simp add: shop_history_def i interaction_weights_def)
  show ?thesis
    by (simp add: cb_product_scores_def f m shape1_def p numeral_2_eq_2 shop_profile_cosine
        upt_small i)
qed

lemma shop_cb_recs:
  "get_user_content_recommendations exact stable_argsort shop_cb shop_history 2 = [(''p2'', 1),
      (''p7'', 7 / 25)]"
  "get_user_content_recommendations exact stable_argsort shop_cb shop_history 3 = [(''p2'', 1),
      (''p7'', 7 / 25)]"
proof -
  have a: "cb_is_trained shop_cb" "shop_history \<noteq> []"
    by (simp_all add: shop_cb_eq shop_history_def)
  have c: "reverse_product_map shop_cb = reverse_map [''p2'', ''p7'', ''p9'']"
    by (simp add: shop_cb_eq)
  have d: "rev (stable_argsort [1, 7 / 25, 0]) = [0, 1, 2]"
    by (simp add: stable_argsort_def upt_small)
  have e: "reverse_map [''p2'', ''p7'', ''p9''] 0 = Some ''p2''"
    "reverse_map [''p2'', ''p7'', ''p9''] (Suc 0) = Some ''p7''"
    by (simp_all add: index_map_def reverse_map_def dict_of_def enumerate_list_def upt_small)
  show "get_user_content_recommendations exact stable_argsort shop_cb shop_history 2 =
          [(''p2'', 1), (''p7'', 7 / 25)]"
    by (simp add: get_user_content_recommendations_def a c d e shop_cb_scores py_take_def)
  show "get_user_content_recommendations exact stable_argsort shop_cb shop_history 3 =
          [(''p2'', 1), (''p7'', 7 / 25)]"
    by (simp add: get_user_content_recommendations_def a c d e shop_cb_scores py_take_def
        numeral_3_eq_3)
qed

lemma shop_auto_train: "auto_train shop_env shop_service = shop_service"
  by (simp add: auto_train_def should_retrain_def shop_env_def shop_service_def empty_shop_def)

lemma shop_trained: "cf_is_trained shop_cf" "cb_is_trained shop_cb" "shop_history \<noteq> []"
  by (simp_all add: shop_cf_eq shop_cb_eq shop_history_def)

lemma shop_service_fields:
  "collaborative_filter shop_service = shop_cf" "content_filter shop_service = shop_cb"
  by (simp_all add: shop_service_def)

lemma shop_env_fields:
  "get_user_interactions shop_env u = Inr shop_history"
  "find_product_details shop_env ids =
     Inr (map (\<lambda>i. (i, \<lparr>details_name = i, details_price = 10, details_category = ''books'',
                         details_images = []\<rparr>)) ids)"
  "rounding shop_env = exact" "argsort shop_env = stable_argsort"
  by (simp_all add: shop_env_def empty_shop_def)

lemma shop_candidates:
  "collaborative_candidates shop_env shop_service ''u1'' 2 None @
   content_candidates shop_env shop_service shop_history 2 None =
     [candidate ''collaborative_filtering''
        ''Users with similar preferences also liked this'' (''p1'', 4 / 3),
      candidate ''collaborative_filtering''
        ''Users with similar preferences also liked this'' (''p7'', 2 / 3),
      candidate ''content_based_filtering'' ''Based on products you have viewed'' (''p2'', 1),
      candidate ''content_based_filtering'' ''Based on products you have viewed''
        (''p7'', 7 / 25)]"
  "collaborative_candidates shop_env shop_service ''u1'' 3 None @
   content_candidates shop_env shop_service shop_history 3 None =
     [candidate ''collaborative_filtering''
        ''Users with similar preferences also liked this'' (''p1'', 4 / 3),
      candidate ''collaborative_filtering''
        ''Users with similar preferences also liked this'' (''p7'', 2 / 3),
      candidate ''content_based_filtering'' ''Based on products you have viewed'' (''p2'', 1),
      candidate ''content_based_filtering'' ''Based on products you have viewed''
        (''p7'', 7 / 25)]"
  by (simp_all add: collaborative_candidates_def content_candidates_def shop_service_fields
      shop_env_fields shop_trained shop_cf_recs shop_cb_recs)

lemma shop_sorted:
  "sorted_reverse total_score
     (group_by_product
        [candidate ''collaborative_filtering''
           ''Users with similar preferences also liked this'' (''p1'', 4 / 3),
         candidate ''collaborative_filtering''
           ''Users with similar preferences also liked this'' (''p7'', 2 / 3),
         candidate ''content_based_filtering'' ''Based on products you have viewed'' (''p2'', 1),
         candidate ''content_based_filtering'' ''Based on products you have viewed''
           (''p7'', 7 / 25)]) =
   [\<lparr>ps_productId = ''p1'', total_score = 4 / 3, algorithms = [''collaborative_filtering''],
      reasons = [''Users with similar preferences also liked this'']\<rparr>,
    \<lparr>ps_productId = ''p2'', total_score = 1, algorithms = [''content_based_filtering''],
      reasons = [''Based on products you have viewed'']\<rparr>,
    \<lparr>ps_productId = ''p7'', total_score = 71 / 75,
      algorithms = [''collaborative_filtering'', ''content_based_filtering''],
      reasons = [''Users with similar preferences also liked this'',
                 ''Based on products you have viewed'']\<rparr>]"
  by (simp add: group_by_product_def candidate_def sorted_reverse_def)

section \<open>The claims\<close>

text \<open>
  C1 (the code departs from the claim). The loop that adds the weights runs over the
  types of the first record only, so a type the first record lacks is never weighted;
  and the score column starts at 0 and is never NaN, so \<open>fillna\<close> never falls back to
  the interaction count. With the default \<open>min_interactions = 5\<close> all eight records of
  \<open>purchase_after_view\<close> survive the filter; the purchase-only record of \<open>u2\<close> on \<open>p2\<close>
  gets score 0 (the claim: 3) and the record of \<open>u3\<close> on \<open>p1\<close>, with no types and seven
  interactions, gets score 0 (the claim: 7).
\<close>

theorem prepare_data_scores_first_record_types_only:
  "map_sum id (map (\<lambda>r. (userId r, productId r, score r)))
       (prepare_data 5 purchase_after_view) =
     Inr [(''u1'', ''p1'', 3), (''u1'', ''p2'', 3), (''u2'', ''p1'', 3), (''u2'', ''p2'', 0),
          (''u2'', ''p3'', 3), (''u3'', ''p1'', 0), (''u3'', ''p2'', 3), (''u3'', ''p3'', 3)]"
  by (simp add: prepare_data_def calculate_scores_def purchase_after_view_def
      mk_interaction_def add_weight_def interaction_weights_def contains_type_def
      fillna_def with_score_def group_sum_def interaction.extend_def scored.fields_def)

text \<open>
  C2 (corrected). A \<open>train\<close> call that raises does pass the exception on, but the handler
  of both filters first sets \<open>is_trained\<close> to false, so a filter that was trained is no
  longer: here the trained \<open>tie_model\<close> is given a record whose \<open>interactionTypes\<close> is
  \<open>None\<close>.
\<close>

theorem failed_train_clears_trained_flag:
  "cf_is_trained tie_model \<and>
   fst (cf_train exact (\<lambda>k m. Inr m) [untyped_record] tie_model) = Some TypeError \<and>
   \<not> cf_is_trained (snd (cf_train exact (\<lambda>k m. Inr m) [untyped_record] tie_model))"
proof -
  have "cf_is_trained tie_model" by (simp add: tie_model_eq tie_cf_def)
  moreover have "prepare_data (min_interactions tie_model) [untyped_record] = Inl TypeError"
    by (simp add: prepare_data_def calculate_scores_def untyped_record_def)
  ultimately show ?thesis by (simp add: cf_train_Inl)
qed

text \<open>
  C2 as amended. When \<open>train\<close> raises, the exception reaches the caller and the filter is
  left as follows. If data preparation raised, it is the filter as before with
  \<open>is_trained\<close> false. Otherwise the reduction step (collaborative) or the feature
  extraction (content) raised: the index maps are those of the new data, the
  collaborative filter's user-item matrix is the new one, the similarity matrix (and
  the content filter's feature matrix) are the old ones, and \<open>is_trained\<close> is false.
\<close>

theorem train_failure_state:
  "(fst (cf_train rnd sv recs s) = Some e \<longrightarrow>
      (prepare_data (min_interactions s) recs = Inl e \<and>
       snd (cf_train rnd sv recs s) = s\<lparr>cf_is_trained := False\<rparr>) \<or>
      (\<exists>df. prepare_data (min_interactions s) recs = Inr df \<and> df \<noteq> [] \<and>
         sv (n_components s) (pivot_table df) = Inl e \<and>
         snd (cf_train rnd sv recs s) =
           (snd (create_user_item_matrix df s))
             \<lparr>user_item_matrix := Some (pivot_table df), cf_is_trained := False\<rparr>)) \<and>
   (fst (cb_train rnd pp ef ps c) = Some e' \<longrightarrow>
      (pp ps = Inl e' \<and> snd (cb_train rnd pp ef ps c) = c\<lparr>cb_is_trained := False\<rparr>) \<or>
      (\<exists>df. pp ps = Inr df \<and> df \<noteq> [] \<and> ef df = Inl e' \<and>
         snd (cb_train rnd pp ef ps c) =
           c\<lparr>product_index_map := index_map (map row_id df),
             reverse_product_map := reverse_map (map row_id df),
             cb_is_trained := False\<rparr>))"
proof (intro conjI impI)
  assume raised: "fst (cf_train rnd sv recs s) = Some e"
  show "(prepare_data (min_interactions s) recs = Inl e \<and>
       snd (cf_train rnd sv recs s) = s\<lparr>cf_is_trained := False\<rparr>) \<or>
      (\<exists>df. prepare_data (min_interactions s) recs = Inr df \<and> df \<noteq> [] \<and>
         sv (n_components s) (pivot_table df) = Inl e \<and>
         snd (cf_train rnd sv recs s) =
           (snd (create_user_item_matrix df s))
             \<lparr>user_item_matrix := Some (pivot_table df), cf_is_trained := False\<rparr>)"
  proof (cases "prepare_data (min_interactions s) recs")
    case (Inl e0)
    with raised show ?thesis by (simp add: cf_train_Inl)
  next
    case (Inr df)
    show ?thesis
    proof (cases "df = []")
      case True
      with Inr raised show ?thesis by (simp add: cf_train_Nil)
    next
      case False
      let ?M = "pivot_table df"
      note eq = cf_train_Inr[OF Inr False, of rnd sv]
      from raised eq have big: "n_components s < int (shape1 ?M)"
        by (rule_tac ccontr) (simp split: if_splits)
      from raised eq big have "sv (n_components s) ?M = Inl e"
        by (cases "sv (n_components s) ?M") (simp_all split: if_splits)
      moreover from this eq big raised have "snd (cf_train rnd sv recs s) =
           (snd (create_user_item_matrix df s))
             \<lparr>user_item_matrix := Some ?M, cf_is_trained := False\<rparr>"
        by (simp split: if_splits)
      ultimately show ?thesis using Inr False by blast
    qed
  qed
next
  assume raised: "fst (cb_train rnd pp ef ps c) = Some e'"
  show "(pp ps = Inl e' \<and> snd (cb_train rnd pp ef ps c) = c\<lparr>cb_is_trained := False\<rparr>) \<or>
      (\<exists>df. pp ps = Inr df \<and> df \<noteq> [] \<and> ef df = Inl e' \<and>
         snd (cb_train rnd pp ef ps c) =
           c\<lparr>product_index_map := index_map (map row_id df),
             reverse_product_map := reverse_map (map row_id df),
             cb_is_trained := False\<rparr>)"
  proof (cases "pp ps")
    case (Inl e0)
    with raised show ?thesis by (simp add: cb_train_Inl)
  next
    case (Inr df)
    show ?thesis
    proof (cases "df = []")
      case True
      with Inr raised show ?thesis by (simp add: cb_train_Nil)
    next
      case False
      note eq = cb_train_Inr[of pp ps df rnd ef c, OF Inr False]
      from raised eq have "ef df = Inl e'"
        by (cases "ef df") (simp_all split: if_splits)
      moreover from this eq have "snd (cb_train rnd pp ef ps c) =
           c\<lparr>product_index_map := index_map (map row_id df),
             reverse_product_map := reverse_map (map row_id df),
             cb_is_trained := False\<rparr>"
        by simp
      ultimately show ?thesis using Inr False by blast
    qed
  qed
qed

theorem train_failure_state_witness:
  "fst (cf_train exact (\<lambda>k m. Inr m) [untyped_record] tie_model) = Some TypeError \<and>
   snd (cf_train exact (\<lambda>k m. Inr m) [untyped_record] tie_model) =
       tie_model\<lparr>cf_is_trained := False\<rparr> \<and>
   fst (cb_train exact plain_rows (\<lambda>df. Inl LibraryError) twin_products
       (ContentBasedFiltering 1000)) =
     Some LibraryError \<and>
   snd (cb_train exact plain_rows (\<lambda>df. Inl LibraryError) twin_products
       (ContentBasedFiltering 1000)) =
     (ContentBasedFiltering 1000)
       \<lparr>product_index_map := index_map [''p1'', ''p2''],
        reverse_product_map := reverse_map [''p1'', ''p2''], cb_is_trained := False\<rparr>"
proof -
  have p: "prepare_data (min_interactions tie_model) [untyped_record] = Inl TypeError"
    by (simp add: prepare_data_def calculate_scores_def untyped_record_def)
  then have a: "fst (cf_train exact (\<lambda>k m. Inr m) [untyped_record] tie_model) = Some TypeError"
    by (simp add: cf_train_Inl)
  have rows: "plain_rows twin_products =
      Inr [\<lparr>row_id = ''p1'', combined_text = [], row_category = ''books'', row_price = 3,
             price_category = []\<rparr>,
           \<lparr>row_id = ''p2'', combined_text = [], row_category = ''books'', row_price = 3,
             price_category = []\<rparr>]"
    by (simp add: plain_rows_def twin_products_def mk_product_def)
  have b: "fst (cb_train exact plain_rows (\<lambda>df. Inl LibraryError) twin_products
                  (ContentBasedFiltering 1000)) = Some LibraryError"
    by (simp add: cb_train_def rows Let_def)
  from train_failure_state[of exact "\<lambda>k m. Inr m" "[untyped_record]" tie_model TypeError plain_rows
      "\<lambda>df. Inl LibraryError" twin_products "ContentBasedFiltering 1000" LibraryError] a b p rows
  show ?thesis by simp
qed

text \<open>
  C3, as stated: whenever both trained filters propose the same product in a call with no
  algorithm filter, the final list has exactly one entry for it. In the shop example,
  with \<open>limit = 2\<close>, both filters propose \<open>p7\<close> (scores \<open>2/3\<close> and \<open>7/25\<close>), yet the merged
  list is cut to its first \<open>limit\<close> products, \<open>p1\<close> (\<open>4/3\<close>) and \<open>p2\<close> (\<open>1\<close>), and the final
  list has no entry for \<open>p7\<close> (\<open>71/75\<close>).
\<close>

theorem shared_product_cut_by_limit:
  "cf_is_trained (collaborative_filter (auto_train shop_env shop_service)) \<and>
   cb_is_trained (content_filter (auto_train shop_env shop_service)) \<and>
   get_user_interactions shop_env ''u1'' = Inr shop_history \<and>
   (''p7'', 2 / 3) \<in> set (get_user_recommendations (argsort shop_env)
                            (collaborative_filter (auto_train shop_env shop_service)) ''u1'' 2) \<and>
   (''p7'', 7 / 25) \<in> set (get_user_content_recommendations (rounding shop_env)
                             (argsort shop_env)
                             (content_filter (auto_train shop_env shop_service))
                             shop_history 2) \<and>
   map rec_productId (fst (get_recommendations shop_env shop_service ''u1'' 2 None)) =
     [''p1'', ''p2'']"
proof -
  have "map rec_productId (fst (get_recommendations shop_env shop_service ''u1'' 2 None)) =
          [''p1'', ''p2'']"
    by (simp add: get_recommendations_def shop_auto_train shop_env_fields shop_candidates
        Let_def hybrid_def shop_sorted py_take_def enrich_recommendations_def hybrid_entry_def
        dict_of_def)
  then show ?thesis
    by (simp add: shop_auto_train shop_service_fields shop_trained shop_env_fields
        shop_cf_recs shop_cb_recs)
qed

text \<open>
  C3, amended. Take a call of \<open>get_recommendations\<close> with no algorithm filter and a
  \<open>limit\<close> of at least 1, whose history lookup succeeds, and a product \<open>p\<close> that the
  collaborative filter proposes once with score \<open>a\<close> and the content filter once with
  score \<open>b\<close>. Let \<open>ranked\<close> be the first \<open>limit\<close> products of the merged ranking (the
  candidates of both filters grouped by product, in descending order of summed score).
  Then the final list has exactly one entry for \<open>p\<close> if \<open>p\<close> is among \<open>ranked\<close> and the
  catalogue lookup for \<open>ranked\<close> returns \<open>p\<close> or raises, and no entry for \<open>p\<close> otherwise;
  every entry is tagged \<open>hybrid\<close>, and an entry for \<open>p\<close> has score \<open>a + b\<close> and the
  contributing algorithms \<open>collaborative_filtering\<close>, \<open>content_based_filtering\<close>, in this
  order; the list is in descending order of score.
\<close>

theorem hybrid_merges_shared_product:
  assumes ui: "get_user_interactions e uid = Inr uis"
    and cf: "filter (\<lambda>pr. fst pr = p)
               (get_user_recommendations (argsort e) (collaborative_filter (auto_train e s))
                  uid limit) =
             [(p, a)]"
    and cb: "filter (\<lambda>pr. fst pr = p)
               (get_user_content_recommendations (rounding e) (argsort e)
                  (content_filter (auto_train e s)) uis limit) =
             [(p, b)]"
    and pos: "0 < limit"
    and result: "result = fst (get_recommendations e s uid limit None)"
    and ranked: "ranked =
       py_take limit
         (sorted_reverse total_score
            (group_by_product
               (collaborative_candidates e (auto_train e s) uid limit None @
                content_candidates e (auto_train e s) uis limit None)))"
  shows "length (filter (\<lambda>r. rec_productId r = p) result) =
           (if p \<in> ps_productId ` set ranked \<and> in_catalogue e (map ps_productId ranked) p
            then 1 else 0) \<and>
         (\<forall>r\<in>set result.
            algorithm r = ''hybrid'' \<and>
            (rec_productId r = p \<longrightarrow>
               rec_score r = a + b \<and>
               contributing_algorithms r =
                 Some [''collaborative_filtering'', ''content_based_filtering''])) \<and>
         sorted_wrt (\<lambda>x y. rec_score y \<le> rec_score x) result"
proof -
  let ?recs = "collaborative_candidates e (auto_train e s) uid limit None @
               content_candidates e (auto_train e s) uis limit None"
  let ?G = "group_by_product ?recs"
  let ?P = "\<lambda>x. in_catalogue e (map ps_productId ranked) (ps_productId x)"
  have shared: "filter (\<lambda>r. rec_productId r = p) ?recs =
      [candidate ''collaborative_filtering''
         ''Users with similar preferences also liked this'' (p, a),
       candidate ''content_based_filtering'' ''Based on products you have viewed'' (p, b)]"
    by (simp add: collaborative_candidates_hybrid content_candidates_hybrid filter_candidates
        cf cb)
  then have ne: "?recs \<noteq> []" by (metis filter.simps(1) list.distinct(1))
  from get_recommendations_hybrid_shape[OF ui refl ne pos ranked] result
  obtain d where res: "result = map (\<lambda>x. (hybrid_entry x)\<lparr>details := d x\<rparr>) (filter ?P ranked)"
    by auto
  have sub: "set ranked \<subseteq> set ?G"
    unfolding ranked using set_py_take[of limit "sorted_reverse total_score ?G"]
    by (simp add: set_sorted_reverse)
  have dist: "distinct (map ps_productId (filter ?P ranked))"
    unfolding ranked
    by (intro distinct_keys_filter distinct_keys_py_take distinct_keys_sorted_reverse
        distinct_group_by_product)
  have ids: "map rec_productId result = map ps_productId (filter ?P ranked)"
    by (simp add: res comp_def hybrid_entry_fields)
  have "distinct (map rec_productId result)" unfolding ids by (rule dist)
  then have most: "length (filter (\<lambda>r. rec_productId r = p) result) \<le> 1"
    by (rule filter_key_at_most_one)
  have present: "(\<exists>r\<in>set result. rec_productId r = p) \<longleftrightarrow>
      p \<in> ps_productId ` set ranked \<and> in_catalogue e (map ps_productId ranked) p"
  proof
    assume "\<exists>r\<in>set result. rec_productId r = p"
    then have "p \<in> set (map rec_productId result)" by auto
    then have "p \<in> set (map ps_productId (filter ?P ranked))" unfolding ids .
    then show "p \<in> ps_productId ` set ranked \<and> in_catalogue e (map ps_productId ranked) p"
      by auto
  next
    assume "p \<in> ps_productId ` set ranked \<and> in_catalogue e (map ps_productId ranked) p"
    then have "p \<in> set (map ps_productId (filter ?P ranked))" by auto
    then have "p \<in> set (map rec_productId result)" unfolding ids .
    then show "\<exists>r\<in>set result. rec_productId r = p" by auto
  qed
  have 1: "length (filter (\<lambda>r. rec_productId r = p) result) =
           (if p \<in> ps_productId ` set ranked \<and> in_catalogue e (map ps_productId ranked) p
            then 1 else 0)"
  proof (cases "\<exists>r\<in>set result. rec_productId r = p")
    case True
    then have "filter (\<lambda>r. rec_productId r = p) result \<noteq> []"
      by (simp add: filter_empty_conv)
    then have "length (filter (\<lambda>r. rec_productId r = p) result) \<noteq> 0" by simp
    with most have "length (filter (\<lambda>r. rec_productId r = p) result) = 1" by linarith
    with True present show ?thesis by simp
  next
    case False
    then have "filter (\<lambda>r. rec_productId r = p) result = []"
      by (simp add: filter_empty_conv)
    with False present show ?thesis by simp
  qed
  have entry: "total_score x = a + b \<and>
               algorithms x = [''collaborative_filtering'', ''content_based_filtering'']"
    if "x \<in> set ranked" "ps_productId x = p" for x
  proof -
    from that sub have "x = merged_entry p ?recs"
      using group_by_product_entry[of x ?recs] by auto
    then have "total_score x = total_score (merged_entry p ?recs)"
      "algorithms x = algorithms (merged_entry p ?recs)"
      by simp_all
    then show ?thesis
      unfolding merged_entry_def shared by (simp add: candidate_def)
  qed
  have 2: "\<forall>r\<in>set result.
            algorithm r = ''hybrid'' \<and>
            (rec_productId r = p \<longrightarrow>
               rec_score r = a + b \<and>
               contributing_algorithms r =
                 Some [''collaborative_filtering'', ''content_based_filtering''])"
    using entry by (auto simp: res hybrid_entry_fields)
  have "sorted_wrt (\<lambda>x y. total_score y \<le> total_score x) (filter ?P ranked)"
    unfolding ranked
    by (intro sorted_wrt_filter sorted_wrt_py_take sorted_reverse_descending)
  then have 3: "sorted_wrt (\<lambda>x y. rec_score y \<le> rec_score x) result"
    by (simp add: res sorted_wrt_map hybrid_entry_fields)
  from 1 2 3 show ?thesis by (intro conjI)
qed

theorem hybrid_merges_shared_product_witness:
  "get_user_interactions shop_env ''u1'' = Inr shop_history \<and>
   filter (\<lambda>pr. fst pr = ''p7'')
     (get_user_recommendations (argsort shop_env)
        (collaborative_filter (auto_train shop_env shop_service)) ''u1'' 3) =
     [(''p7'', 2 / 3)] \<and>
   filter (\<lambda>pr. fst pr = ''p7'')
     (get_user_content_recommendations (rounding shop_env) (argsort shop_env)
        (content_filter (auto_train shop_env shop_service)) shop_history 3) =
     [(''p7'', 7 / 25)] \<and>
   length (filter (\<lambda>r. rec_productId r = ''p7'')
             (fst (get_recommendations shop_env shop_service ''u1'' 3 None))) = 1 \<and>
   sorted_wrt (\<lambda>x y. rec_score y \<le> rec_score x)
     (fst (get_recommendations shop_env shop_service ''u1'' 3 None))"
proof -
  let ?ranked = "py_take 3
       (sorted_reverse total_score
          (group_by_product
             (collaborative_candidates shop_env (auto_train shop_env shop_service) ''u1'' 3
                None @
              content_candidates shop_env (auto_train shop_env shop_service) shop_history 3
                None)))"
  have ui: "get_user_interactions shop_env ''u1'' = Inr shop_history"
    by (simp add: shop_env_fields)
  have cf: "filter (\<lambda>pr. fst pr = ''p7'')
              (get_user_recommendations (argsort shop_env)
                 (collaborative_filter (auto_train shop_env shop_service)) ''u1'' 3) =
            [(''p7'', 2 / 3)]"
    by (simp add: shop_auto_train shop_service_fields shop_env_fields shop_cf_recs)
  have cb: "filter (\<lambda>pr. fst pr = ''p7'')
              (get_user_content_recommendations (rounding shop_env) (argsort shop_env)
                 (content_filter (auto_train shop_env shop_service)) shop_history 3) =
            [(''p7'', 7 / 25)]"
    by (simp add: shop_auto_train shop_service_fields shop_env_fields shop_cb_recs)
  have pos: "(0::int) < 3" by simp
  have ranked: "map ps_productId ?ranked = [''p1'', ''p2'', ''p7'']"
    by (simp add: shop_auto_train shop_candidates shop_sorted py_take_def)
  have "ps_productId ` set ?ranked = set (map ps_productId ?ranked)" by simp
  then have m: "''p7'' \<in> ps_productId ` set ?ranked" unfolding ranked by simp
  have k: "in_catalogue shop_env (map ps_productId ?ranked) ''p7''"
    unfolding ranked by (simp add: in_catalogue_def shop_env_fields dict_of_def)
  from hybrid_merges_shared_product[OF ui cf cb pos refl refl] m k
  have "length (filter (\<lambda>r. rec_productId r = ''p7'')
             (fst (get_recommendations shop_env shop_service ''u1'' 3 None))) = 1"
    and "sorted_wrt (\<lambda>x y. rec_score y \<le> rec_score x)
     (fst (get_recommendations shop_env shop_service ''u1'' 3 None))"
    by simp_all
  with ui cf cb show ?thesis by blast
qed







text \<open>
  C6 (the code departs from the claim). Skipping the top-ranked entry removes the product
  itself only when it ranks first. Two products with the same feature vector have the
  same similarity to each other and to themselves, whatever the rounding, so both rows
  of the similarity matrix hold one value twice and \<open>argsort\<close> orders both rows alike: the
  position that survives the skip is the same for both products, and one of the two is
  returned for itself. With exact arithmetic the value is 1, and with an \<open>argsort\<close> that
  keeps equal values in position order the reversal puts the higher index first: for
  \<open>p1\<close> (index 0) the entry skipped is \<open>p2\<close> and the entry returned is \<open>p1\<close> itself.
\<close>

theorem similar_products_of_twin_returns_itself:
  assumes "is_argsort srt"
    and "M = snd (cb_train rnd plain_rows price_features twin_products
                    (ContentBasedFiltering 1000))"
  shows "cb_is_trained M \<and>
         (''p1'' \<in> fst ` set (get_similar_products srt M ''p1'' 1) \<or>
          ''p2'' \<in> fst ` set (get_similar_products srt M ''p2'' 1)) \<and>
         cb_is_trained twin_model \<and> product_index_map twin_model ''p1'' = Some 0 \<and>
         product_similarity_matrix twin_model = Some [[1, 1], [1, 1]] \<and>
         get_similar_products stable_argsort twin_model ''p1'' 1 = [(''p1'', 1)]"
proof -
  define v where "v = dot rnd (normalize_row rnd [1, 3]) (normalize_row rnd [1, 3])"
  have cos: "cosine_similarity rnd [[1, 3], [1, 3]] = [[v, v], [v, v]]"
    by (simp add: cosine_similarity_def cosine_similarity_xy_def v_def)
  have M: "M = (ContentBasedFiltering 1000)
       \<lparr>product_index_map := index_map [''p1'', ''p2''],
        reverse_product_map := reverse_map [''p1'', ''p2''],
        product_features := Some [[1, 3], [1, 3]],
        product_similarity_matrix := Some [[v, v], [v, v]],
        cb_is_trained := True\<rparr>"
    unfolding assms(2)
    by (subst cb_train_Inr[of plain_rows twin_products _ rnd price_features, OF twin_rows])
      (simp_all add: price_features_def matrix_size_def cos)
  have t: "cb_is_trained M" by (simp add: M)
  have i: "product_index_map M ''p1'' = Some 0" "product_index_map M ''p2'' = Some (Suc 0)"
    by (simp_all add: M index_map_def dict_of_def enumerate_list_def upt_small)
  have r: "reverse_product_map M 0 = Some ''p1''" "reverse_product_map M (Suc 0) = Some ''p2''"
    by (simp_all add: M index_map_def reverse_map_def dict_of_def enumerate_list_def upt_small)
  have m: "product_similarity_matrix M = Some [[v, v], [v, v]]" by (simp add: M)
  from assms(1) have "argsort_of [v, v] (srt [v, v])" by (simp add: is_argsort_def)
  then have "srt [v, v] = [0, 1] \<or> srt [v, v] = [1, 0]" by (rule argsort_of_pair)
  then have 1: "''p1'' \<in> fst ` set (get_similar_products srt M ''p1'' 1) \<or>
                ''p2'' \<in> fst ` set (get_similar_products srt M ''p2'' 1)"
  proof
    assume "srt [v, v] = [0, 1]"
    then have "get_similar_products srt M ''p1'' 1 = [(''p1'', v)]"
      by (simp add: get_similar_products_def t i r m row_def py_slice1_def py_take_def)
    then show ?thesis by simp
  next
    assume "srt [v, v] = [1, 0]"
    then have "get_similar_products srt M ''p2'' 1 = [(''p2'', v)]"
      by (simp add: get_similar_products_def t i r m row_def py_slice1_def py_take_def)
    then show ?thesis by simp
  qed
  have a: "cb_is_trained twin_model" by (simp add: twin_model_eq)
  have b: "product_index_map twin_model ''p1'' = Some 0"
    by (simp add: twin_model_eq index_map_def dict_of_def enumerate_list_def upt_small)
  have c: "product_similarity_matrix twin_model = Some [[1, 1], [1, 1]]"
    by (simp add: twin_model_eq)
  have d: "rev (stable_argsort [1, 1]) = [1, 0]"
    by (simp add: stable_argsort_def upt_small)
  have e: "reverse_product_map twin_model 0 = Some ''p1''"
    by (simp add: twin_model_eq index_map_def reverse_map_def dict_of_def enumerate_list_def
        upt_small)
  have 2: "get_similar_products stable_argsort twin_model ''p1'' 1 = [(''p1'', 1)]"
    by (simp add: get_similar_products_def a b c d e row_def py_slice1_def py_take_def)
  from t 1 a b c 2 show ?thesis by (intro conjI)
qed

theorem similar_products_of_twin_returns_itself_witness:
  "is_argsort reverse_stable_argsort \<and>
   twin_model =
     snd (cb_train exact plain_rows price_features twin_products (ContentBasedFiltering 1000)) \<and>
   cb_is_trained twin_model \<and>
   (''p1'' \<in> fst ` set (get_similar_products reverse_stable_argsort twin_model ''p1'' 1) \<or>
    ''p2'' \<in> fst ` set (get_similar_products reverse_stable_argsort twin_model ''p2'' 1)) \<and>
   get_similar_products reverse_stable_argsort twin_model ''p2'' 1 = [(''p2'', 1)]"
proof -
  have s: "twin_model =
      snd (cb_train exact plain_rows price_features twin_products (ContentBasedFiltering 1000))"
    by (simp add: twin_model_def)
  have a: "cb_is_trained twin_model" by (simp add: twin_model_eq)
  have b: "product_index_map twin_model ''p2'' = Some (Suc 0)"
    by (simp add: twin_model_eq index_map_def dict_of_def enumerate_list_def upt_small)
  have c: "product_similarity_matrix twin_model = Some [[1, 1], [1, 1]]"
    by (simp add: twin_model_eq)
  have d: "rev (reverse_stable_argsort [1, 1]) = [0, 1]"
    by (simp add: reverse_stable_argsort_def upt_small)
  have e: "reverse_product_map twin_model (Suc 0) = Some ''p2''"
    by (simp add: twin_model_eq index_map_def reverse_map_def dict_of_def enumerate_list_def
        upt_small)
  have 2: "get_similar_products reverse_stable_argsort twin_model ''p2'' 1 = [(''p2'', 1)]"
    by (simp add: get_similar_products_def a b c d e row_def py_slice1_def py_take_def)
  from similar_products_of_twin_returns_itself[OF is_argsort_reverse_stable s]
    is_argsort_reverse_stable s 2
  show ?thesis by blast
qed

text \<open>
  C7. When a last training time \<open>t\<close> is recorded and the count of interactions newer than
  \<open>t\<close> is \<open>n\<close>, \<open>_should_retrain\<close> answers yes, and an unforced \<open>train_models\<close> proceeds
  (is not reported as skipped), exactly when both hold: at least
  \<open>retrain_interval_hours\<close> hours have passed since \<open>t\<close>, and \<open>n\<close> is at least
  \<open>min_new_interactions\<close>. The defaults of the two settings are 24 and 100.
\<close>

theorem retrain_needs_both_conditions:
  assumes "last_training_time s = Some t" and "count_documents e t = Inr n"
  shows "should_retrain e now s =
           (real_of_int (retrain_interval_hours s * 3600) \<le> now - t \<and>
            min_new_interactions s \<le> int n) \<and>
         (status (fst (train_models e False s)) \<noteq> ''skipped'') =
           (real_of_int (retrain_interval_hours s * 3600) \<le> check_time e - t \<and>
            min_new_interactions s \<le> int n) \<and>
         retrain_interval_hours (RecommendationService None None d) = 24 \<and>
         min_new_interactions (RecommendationService None None d) = 100"
  using assms
  by (auto simp: train_models_def should_retrain_def Let_def RecommendationService_def
      split: prod.splits)

theorem retrain_needs_both_conditions_witness:
  "last_training_time day_old_service = Some 0 \<and> count_documents empty_shop 0 = Inr 100 \<and>
   retrain_interval_hours day_old_service = 24 \<and> min_new_interactions day_old_service = 100 \<and>
   check_time empty_shop = 24 * 3600 \<and>
   status (fst (train_models empty_shop False day_old_service)) \<noteq> ''skipped''"
proof -
  have a: "last_training_time day_old_service = Some 0"
    by (simp add: day_old_service_def)
  have b: "count_documents empty_shop 0 = Inr 100"
    by (simp add: empty_shop_def)
  have c: "retrain_interval_hours day_old_service = 24"
    "min_new_interactions day_old_service = 100"
    by (simp_all add: day_old_service_def RecommendationService_def)
  have d: "check_time empty_shop = 24 * 3600"
    by (simp add: empty_shop_def)
  from retrain_needs_both_conditions[OF a b] c d
  have "status (fst (train_models empty_shop False day_old_service)) \<noteq> ''skipped''"
    by simp
  with a b c d show ?thesis by simp
qed

text \<open>
  C8. A forced run always reports \<open>'success'\<close>. Whatever the training of one filter does
  (raise included), the other filter ends as its own \<open>train\<close> leaves it whenever there
  is data for it, and \<open>models_trained\<close> lists exactly the filters that were given data
  and ended trained, the collaborative one first.
\<close>

theorem retrain_models_trains_each_filter:
  assumes "cf = cf_train (rounding e) (svd e) (get_interaction_data e) (collaborative_filter s)"
    and "cb = cb_train (rounding e) (prepare_product_data e) (extract_features e)
        (get_product_data e)
                (content_filter s)"
  shows "status (fst (retrain_models e s)) = ''success'' \<and>
         (get_interaction_data e \<noteq> [] \<longrightarrow>
            collaborative_filter (snd (retrain_models e s)) = snd cf) \<and>
         (get_product_data e \<noteq> [] \<longrightarrow> content_filter (snd (retrain_models e s)) = snd cb) \<and>
         models_trained (fst (retrain_models e s)) =
           (if get_interaction_data e \<noteq> [] \<and> cf_is_trained (snd cf)
            then [''collaborative_filtering''] else []) @
           (if get_product_data e \<noteq> [] \<and> cb_is_trained (snd cb)
            then [''content_based_filtering''] else [])"
  using assms
  by (simp add: retrain_models_def train_models_def Let_def train_collaborative_eq
      train_content_eq save_models_fields split: prod.splits)

theorem retrain_models_trains_each_filter_witness:
  "fst (cf_train (rounding broken_history_shop) (svd broken_history_shop)
      (get_interaction_data broken_history_shop)
          (collaborative_filter (RecommendationService None None empty_disk))) = Some TypeError \<and>
   status (fst (retrain_models broken_history_shop (RecommendationService None None empty_disk))) =
     ''success'' \<and>
   models_trained
     (fst (retrain_models broken_history_shop (RecommendationService None None empty_disk))) =
     [''content_based_filtering'']"
proof -
  let ?e = broken_history_shop and ?s = "RecommendationService None None empty_disk"
  have recs: "get_interaction_data ?e = [untyped_record]"
    by (simp add: get_interaction_data_def broken_history_shop_def empty_shop_def)
  have ps: "get_product_data ?e = [mk_product ''p1'' ''books'' 3, mk_product ''p2'' ''books'' 4]"
    by (simp add: get_product_data_def broken_history_shop_def empty_shop_def)
  have cf: "cf_train (rounding ?e) (svd ?e) [untyped_record] (collaborative_filter ?s) =
              (Some TypeError, (collaborative_filter ?s)\<lparr>cf_is_trained := False\<rparr>)"
    by (simp add: cf_train_def prepare_data_def calculate_scores_def untyped_record_def)
  have cb: "cb_is_trained (snd (cb_train (rounding ?e) (prepare_product_data ?e)
      (extract_features ?e)
              [mk_product ''p1'' ''books'' 3, mk_product ''p2'' ''books'' 4] (content_filter ?s)))"
    by (simp add: cb_train_def broken_history_shop_def empty_shop_def plain_rows_def
        price_features_def mk_product_def matrix_size_def Let_def)
  from retrain_models_trains_each_filter[OF refl refl, of ?e ?s] recs ps cf cb
  show ?thesis by simp
qed




text \<open>
  C10. A run of \<open>train_models\<close> that is not skipped reports \<open>'success'\<close>, sets
  \<open>last_training_time\<close> to the start time of the run and saves: when the three dumps
  succeed, the files hold both filters and the new training time. This holds also when
  no model is trained, and then \<open>models_trained\<close> is empty: with no interaction and no
  product data, and when the training of both filters raises.
\<close>

theorem train_models_not_skipped:
  assumes "force_retrain \<or> should_retrain e (check_time e) s"
  shows "status (fst (train_models e force_retrain s)) = ''success'' \<and>
         last_training_time (snd (train_models e force_retrain s)) = Some (start_time e) \<and>
         ((\<forall>p. dump_ok e p) \<longrightarrow>
            training_metadata_pkl (model_dir (snd (train_models e force_retrain s))) =
              Some (Some (start_time e), retrain_interval_hours s) \<and>
            collaborative_model_pkl (model_dir (snd (train_models e force_retrain s))) =
              Some (collaborative_filter (snd (train_models e force_retrain s))) \<and>
            content_model_pkl (model_dir (snd (train_models e force_retrain s))) =
              Some (content_filter (snd (train_models e force_retrain s)))) \<and>
         (get_interaction_data e = [] \<and> get_product_data e = [] \<longrightarrow>
            models_trained (fst (train_models e force_retrain s)) = []) \<and>
         (fst (cf_train (rounding e) (svd e) (get_interaction_data e)
             (collaborative_filter s)) \<noteq> None \<and>
          fst (cb_train (rounding e) (prepare_product_data e) (extract_features e)
              (get_product_data e)
                 (content_filter s)) \<noteq> None \<longrightarrow>
            models_trained (fst (train_models e force_retrain s)) = [])"
proof -
  have cf: "fst (cf_train (rounding e) (svd e) (get_interaction_data e)
      (collaborative_filter s)) \<noteq> None \<Longrightarrow>
        \<not> cf_is_trained (snd (cf_train (rounding e) (svd e) (get_interaction_data e)
            (collaborative_filter s)))"
    using cf_train_raise_untrained by blast
  have cb: "fst (cb_train (rounding e) (prepare_product_data e) (extract_features e)
      (get_product_data e)
                 (content_filter s)) \<noteq> None \<Longrightarrow>
        \<not> cb_is_trained (snd (cb_train (rounding e) (prepare_product_data e) (extract_features e)
                 (get_product_data e) (content_filter s)))"
    using cb_train_raise_untrained by blast
  show ?thesis
    using assms cf cb
    by (simp add: train_models_def Let_def train_collaborative_eq train_content_eq
        save_models_def split: prod.splits)
qed

theorem train_models_not_skipped_witness:
  "should_retrain empty_shop (check_time empty_shop) day_old_service \<and>
   status (fst (train_models empty_shop False day_old_service)) = ''success'' \<and>
   models_trained (fst (train_models empty_shop False day_old_service)) = [] \<and>
   last_training_time (snd (train_models empty_shop False day_old_service)) = Some 86401 \<and>
   training_metadata_pkl (model_dir (snd (train_models empty_shop False day_old_service))) =
     Some (Some 86401, 24)"
proof -
  have a: "should_retrain empty_shop (check_time empty_shop) day_old_service"
    by (simp add: should_retrain_def empty_shop_def day_old_service_def RecommendationService_def)
  have b: "get_interaction_data empty_shop = []" "get_product_data empty_shop = []"
    "\<forall>p. dump_ok empty_shop p" "start_time empty_shop = 86401"
    "retrain_interval_hours day_old_service = 24"
    by (simp_all add: get_interaction_data_def get_product_data_def empty_shop_def
        day_old_service_def RecommendationService_def)
  from train_models_not_skipped[of False empty_shop day_old_service] a b
  show ?thesis by simp
qed

end
